theory Spec2Isabelle
  imports Main
begin

section \<open>Python string operations used by the handler\<close>

text \<open>
  Strings are byte lists. The glyphs outside ASCII that open some reply texts are written as
  the UTF-8 bytes of the glyph; the operations below only ever inspect ASCII bytes.
\<close>

definition startswith :: "string \<Rightarrow> string \<Rightarrow> bool" where
  "startswith s p = (take (length p) s = p)"

definition is_space :: "char \<Rightarrow> bool" where
  "is_space c = (c = CHR '' '' \<or> c = CHR 0x09 \<or> c = CHR 0x0A \<or> c = CHR 0x0B
     \<or> c = CHR 0x0C \<or> c = CHR 0x0D \<or> c = CHR 0x1C \<or> c = CHR 0x1D
     \<or> c = CHR 0x1E \<or> c = CHR 0x1F)"

text \<open>\<open>str.strip()\<close>: leading and trailing white space removed (ASCII white space here).\<close>

definition strip :: "string \<Rightarrow> string" where
  "strip s = rev (dropWhile is_space (rev (dropWhile is_space s)))"

text \<open>\<open>s.split(d)\<close> for a one-character separator: never the empty list.\<close>

fun split :: "char \<Rightarrow> string \<Rightarrow> string list" where
  "split d [] = [[]]"
| "split d (c # cs) =
     (if c = d then [] # split d cs
      else (case split d cs of [] \<Rightarrow> [[c]] | p # ps \<Rightarrow> (c # p) # ps))"

text \<open>
  \<open>s.replace(old, new)\<close> for a non-empty \<open>old\<close>, scanning left to right; the counter skips
  the bytes of a match that has just been replaced.
\<close>

fun replace_from :: "string \<Rightarrow> string \<Rightarrow> nat \<Rightarrow> string \<Rightarrow> string" where
  "replace_from old new k [] = []"
| "replace_from old new (Suc k) (c # cs) = replace_from old new k cs"
| "replace_from old new 0 (c # cs) =
     (if startswith (c # cs) old then new @ replace_from old new (length old - 1) cs
      else c # replace_from old new 0 cs)"

definition replace :: "string \<Rightarrow> string \<Rightarrow> string \<Rightarrow> string" where
  "replace old new s = replace_from old new 0 s"

definition lower_char :: "char \<Rightarrow> char" where
  "lower_char c =
     (let n = (of_char c :: nat) in if 65 \<le> n \<and> n \<le> 90 then char_of (n + 32) else c)"

definition lower :: "string \<Rightarrow> string" where
  "lower s = map lower_char s"

text \<open>\<open>sub in s\<close> on strings.\<close>

fun contains :: "string \<Rightarrow> string \<Rightarrow> bool" where
  "contains [] sub = (sub = [])"
| "contains (c # cs) sub = (startswith (c # cs) sub \<or> contains cs sub)"

text \<open>\<open>"\n".join(xs)\<close> and its like.\<close>

fun join :: "string \<Rightarrow> string list \<Rightarrow> string" where
  "join sep [] = []"
| "join sep [x] = x"
| "join sep (x # y # ys) = x @ sep @ join sep (y # ys)"

text \<open>\<open>os.path.basename\<close>: what follows the last slash.\<close>

definition basename :: "string \<Rightarrow> string" where
  "basename p = last (split CHR ''/'' p)"

text \<open>\<open>str(n)\<close> for a natural number.\<close>

fun digits_fuel :: "nat \<Rightarrow> nat \<Rightarrow> string" where
  "digits_fuel 0 n = []"
| "digits_fuel (Suc f) n =
     (if n < 10 then [char_of (48 + n)]
      else digits_fuel f (n div 10) @ [char_of (48 + n mod 10)])"

definition str_nat :: "nat \<Rightarrow> string" where
  "str_nat n = digits_fuel (Suc n) n"

section \<open>Persisted rows, the world, and the collaborators\<close>

text \<open>Every exception of the program is a Python \<open>Exception\<close>; the tag records who raised it.\<close>

datatype exn =
  FormError | ValueError | IndexError | KeyError | AgentError | DatabaseError
  | TwilioError | RequestError | OSError | PdfError | ChromaError

record user_row =
  u_id :: nat
  u_name :: string
  u_phone :: string
  u_is_member :: int
  u_is_deleted :: int

record chat_row =
  c_id :: nat
  c_user_id :: nat
  c_status :: string

record message_row =
  m_id :: nat
  m_chat_id :: nat
  m_user_id :: nat
  m_user_message :: string
  m_bot_reply :: string

text \<open>An entry of the vector collection: id, document, file name of its metadata.\<close>

type_synonym entry = "string \<times> string \<times> string"

text \<open>
  The world a turn runs in: the three tables of \<open>db.py\<close> with the AUTOINCREMENT counters of
  \<open>chats\<close> and \<open>messages\<close>, the files under \<open>/tmp\<close> (path, content), the vector
  collection, and three logs of what left the process: WhatsApp messages delivered
  (to, body), URLs requested by \<open>download_file\<close>, and the commands given to the mail agent
  (receiver, command, content of the attachment file when the command was given).
\<close>

record world =
  users :: "user_row list"
  chats :: "chat_row list"
  messages :: "message_row list"
  chat_seq :: nat
  message_seq :: nat
  files :: "(string \<times> string) list"
  collection :: "entry list"
  outbox :: "(string \<times> string) list"
  http_log :: "string list"
  mail_log :: "(string \<times> string \<times> string option) list"

text \<open>
  The SQL text of five of the six statements is written by a language model from the prompts
  of \<open>SQLAgent\<close> and \<open>ChatAgent\<close>; the sixth (\<open>save_message\<close>) is fixed text with
  parameters. The model takes each generated statement to be the one its prompt asks for,
  named by a constructor below; that the language model may fail is kept (\<open>agent_fails\<close>).
\<close>

datatype sql =
  SelectUser string
  | SelectActiveChat nat
  | InsertChat nat
  | SelectMessages nat
  | UpdateEndChat nat
  | InsertMessage nat nat string string

text \<open>What \<open>execute_query\<close> returns: a list of rows for a SELECT, \<open>{"id": lastrowid}\<close> otherwise.\<close>

datatype result =
  Users "user_row list"
  | Chats "chat_row list"
  | Messages "message_row list"
  | LastRowId nat

text \<open>What writing the downloaded bytes to the local path can do.\<close>

datatype write_outcome = Written | OpenFailed | WriteFailed string

text \<open>
  The collaborators of one turn. A language-model reply is a function of what the prompt is
  built from; every call that can raise says so.
\<close>

record env =
  agent_fails :: "sql \<Rightarrow> bool"
  db_fails :: "sql \<Rightarrow> bool"
  twilio_fails :: "string \<Rightarrow> string \<Rightarrow> bool"
  intro_run :: "user_row \<Rightarrow> string \<Rightarrow> exn + string"
  mediator_run :: "user_row \<Rightarrow> string \<Rightarrow> string \<Rightarrow> string list \<Rightarrow> exn + string"
  summary_run :: "string list \<Rightarrow> string \<Rightarrow> string option \<Rightarrow> exn + string"
  mail_run :: "string \<Rightarrow> string \<Rightarrow> string option \<Rightarrow> exn + string"
  http_get :: "string \<Rightarrow> exn + string"
  disk_write :: "string \<Rightarrow> string \<Rightarrow> write_outcome"
  now :: string
  pdf_pages :: "string \<Rightarrow> exn + string list"
  chroma_delete_fails :: "string \<Rightarrow> bool"
  chroma_add_fails :: "string \<Rightarrow> bool"
  chroma_query :: "entry list \<Rightarrow> string \<Rightarrow> nat \<Rightarrow> exn + string list list"

section \<open>Statements with effects and exceptions\<close>

type_synonym 'a io = "world \<Rightarrow> (exn + 'a) \<times> world"

definition ret :: "'a \<Rightarrow> 'a io" where
  "ret x w = (Inr x, w)"

definition raise :: "exn \<Rightarrow> 'a io" where
  "raise e w = (Inl e, w)"

definition lift :: "exn + 'a \<Rightarrow> 'a io" where
  "lift r w = (r, w)"

definition bind :: "'a io \<Rightarrow> ('a \<Rightarrow> 'b io) \<Rightarrow> 'b io" where
  "bind m f w = (case m w of (Inl e, w') \<Rightarrow> (Inl e, w') | (Inr x, w') \<Rightarrow> f x w')"

text \<open>\<open>try: m except Exception as e: h\<close>.\<close>

definition try_except :: "'a io \<Rightarrow> (exn \<Rightarrow> 'a io) \<Rightarrow> 'a io" where
  "try_except m h w = (case m w of (Inl e, w') \<Rightarrow> h e w' | (Inr x, w') \<Rightarrow> (Inr x, w'))"

section \<open>\<open>Agentic_System.py\<close>: the mediator\<close>

text \<open>The loop of \<open>analyze_conversation\<close> over the history rows, then the join.\<close>

fun chat_lines :: "message_row list \<Rightarrow> string list" where
  "chat_lines [] = []"
| "chat_lines (msg # rest) =
     (''User: '' @ m_user_message msg) # (''Bot: '' @ m_bot_reply msg) # chat_lines rest"

definition formatted_history :: "message_row list \<Rightarrow> string" where
  "formatted_history chat_history = join [CHR 0x0A] (chat_lines chat_history)"

text \<open>
  \<open>MediatorAgent.analyze_conversation\<close>. The prompt is fixed text around the user data, the
  formatted history, the current message and the attachment list, so the agent's reply is
  \<open>mediator_run\<close> at these four. The reply is stripped, and a reply that starts with TRUE
  is replaced by FALSE_1 when there is no attachment in this turn.
\<close>

definition analyze_conversation ::
  "env \<Rightarrow> user_row \<Rightarrow> message_row list \<Rightarrow> string \<Rightarrow> string list \<Rightarrow> string io" where
  "analyze_conversation e user_data chat_history user_message media_urls =
     bind (lift (mediator_run e user_data (formatted_history chat_history) user_message media_urls))
       (\<lambda>content.
          let result = strip content in
          if startswith result ''TRUE'' \<and> media_urls = [] then ret ''FALSE_1''
          else ret result)"

section \<open>\<open>Agentic_System.py\<close>: the agents that write SQL\<close>

definition agent_query :: "env \<Rightarrow> sql \<Rightarrow> sql io" where
  "agent_query e q w = (if agent_fails e q then (Inl AgentError, w) else (Inr q, w))"

definition generate_query :: "env \<Rightarrow> string \<Rightarrow> sql io" where
  "generate_query e phone_number = agent_query e (SelectUser phone_number)"

definition check_active_chat :: "env \<Rightarrow> nat \<Rightarrow> sql io" where
  "check_active_chat e user_id = agent_query e (SelectActiveChat user_id)"

definition create_new_chat :: "env \<Rightarrow> nat \<Rightarrow> sql io" where
  "create_new_chat e user_id = agent_query e (InsertChat user_id)"

definition get_chat_messages :: "env \<Rightarrow> nat \<Rightarrow> sql io" where
  "get_chat_messages e chat_id = agent_query e (SelectMessages chat_id)"

definition end_chat :: "env \<Rightarrow> nat \<Rightarrow> sql io" where
  "end_chat e chat_id = agent_query e (UpdateEndChat chat_id)"

definition save_message :: "nat \<Rightarrow> nat \<Rightarrow> string \<Rightarrow> string \<Rightarrow> sql" where
  "save_message chat_id user_id user_message bot_reply =
     InsertMessage chat_id user_id user_message bot_reply"

definition generate_intro_message :: "env \<Rightarrow> user_row \<Rightarrow> string \<Rightarrow> string io" where
  "generate_intro_message e user_data user_message = lift (intro_run e user_data user_message)"

section \<open>\<open>db.py\<close>: \<open>execute_query\<close>\<close>

text \<open>
  A statement that fails raises and commits nothing. Rows come back in insertion order, which
  is the order of \<open>created_at\<close>; the active-chat lookup asks for the most recent row only.
  An UPDATE reports the row id 0 of a fresh cursor.
\<close>

definition is_active_of :: "nat \<Rightarrow> chat_row \<Rightarrow> bool" where
  "is_active_of user_id c = (c_user_id c = user_id \<and> c_status c = ''active'')"

definition execute_query :: "env \<Rightarrow> sql \<Rightarrow> result io" where
  "execute_query e q w =
     (if db_fails e q then (Inl DatabaseError, w)
      else (case q of
        SelectUser phone \<Rightarrow>
          (Inr (Users (filter (\<lambda>u. u_phone u = phone \<and> u_is_deleted u = 0) (users w))), w)
      | SelectActiveChat user_id \<Rightarrow>
          (Inr (Chats (take 1 (rev (filter (is_active_of user_id) (chats w))))), w)
      | InsertChat user_id \<Rightarrow>
          (let i = Suc (chat_seq w) in
           (Inr (LastRowId i),
            w\<lparr>chats := chats w @ [\<lparr>c_id = i, c_user_id = user_id, c_status = ''active''\<rparr>],
              chat_seq := i\<rparr>))
      | SelectMessages chat_id \<Rightarrow>
          (Inr (Messages (filter (\<lambda>m. m_chat_id m = chat_id) (messages w))), w)
      | UpdateEndChat chat_id \<Rightarrow>
          (Inr (LastRowId 0),
           w\<lparr>chats := map (\<lambda>c. if c_id c = chat_id then c\<lparr>c_status := ''ended''\<rparr> else c) (chats w)\<rparr>)
      | InsertMessage chat_id user_id user_message bot_reply \<Rightarrow>
          (let i = Suc (message_seq w) in
           (Inr (LastRowId i),
            w\<lparr>messages := messages w @
                 [\<lparr>m_id = i, m_chat_id = chat_id, m_user_id = user_id,
                   m_user_message = user_message, m_bot_reply = bot_reply\<rparr>],
              message_seq := i\<rparr>))))"

text \<open>Reading a result as the rows the caller expects; another shape raises on indexing.\<close>

definition user_rows :: "result \<Rightarrow> user_row list io" where
  "user_rows r = (case r of Users us \<Rightarrow> ret us | Chats cs \<Rightarrow> raise KeyError
     | Messages ms \<Rightarrow> raise KeyError | LastRowId i \<Rightarrow> raise KeyError)"

definition chat_rows :: "result \<Rightarrow> chat_row list io" where
  "chat_rows r = (case r of Chats cs \<Rightarrow> ret cs | Users us \<Rightarrow> raise KeyError
     | Messages ms \<Rightarrow> raise KeyError | LastRowId i \<Rightarrow> raise KeyError)"

definition message_rows :: "result \<Rightarrow> message_row list io" where
  "message_rows r = (case r of Messages ms \<Rightarrow> ret ms | Users us \<Rightarrow> raise KeyError
     | Chats cs \<Rightarrow> raise KeyError | LastRowId i \<Rightarrow> raise KeyError)"

section \<open>\<open>Agentic_System.py\<close>: PDF processing and the summary agent\<close>

text \<open>The fixed template, the same text in \<open>Main.py\<close> and in the summary agent's handler.\<close>

definition default_template :: string where
  "default_template =
     ''Dear Hiring Manager,'' @ [CHR 0x0A, CHR 0x0A] @
     ''I am excited to apply for the position mentioned in the subject line. Please find my resume attached for your consideration.'' @
     [CHR 0x0A, CHR 0x0A] @ ''Best regards,'' @ [CHR 0x0A] @ ''Zain Raza'' @ [CHR 0x0A] @
     ''Lahore, Pakistan'' @ [CHR 0x0A] @
     [CHR 0xF0, CHR 0x9F, CHR 0x93, CHR 0xA7] @ '' zainxaidi2003@gmail.com | '' @
     [CHR 0xF0, CHR 0x9F, CHR 0x93, CHR 0x9E] @ '' 0306-5187343''"

datatype processing = ProcSuccess nat | ProcPartial string | ProcError

function chunks :: "nat \<Rightarrow> string \<Rightarrow> string list" where
  "chunks n s = (if n = 0 \<or> s = [] then [] else take n s # chunks n (drop n s))"
  by pat_completeness auto
termination
  by (relation "measure (\<lambda>(n, s). length s)") auto

declare chunks.simps [simp del]

fun add_chunks :: "env \<Rightarrow> string \<Rightarrow> (nat \<times> string) list \<Rightarrow> entry list \<Rightarrow> nat \<times> entry list" where
  "add_chunks e filename [] col = (0, col)"
| "add_chunks e filename ((chunk_id, chunk_text) # rest) col =
     (let ident = filename @ ''_'' @ str_nat chunk_id in
      if chroma_add_fails e ident then add_chunks e filename rest col
      else (case add_chunks e filename rest (col @ [(ident, chunk_text, filename)]) of
              (added, col') \<Rightarrow> (Suc added, col')))"

definition read_file :: "string \<Rightarrow> string io" where
  "read_file path w = (case map_of (files w) path of None \<Rightarrow> (Inl OSError, w)
     | Some content \<Rightarrow> (Inr content, w))"

definition collection_delete :: "env \<Rightarrow> string \<Rightarrow> unit io" where
  "collection_delete e filename w =
     (if chroma_delete_fails e filename then (Inl ChromaError, w)
      else (Inr (), w\<lparr>collection := filter (\<lambda>(i, d, f). f \<noteq> filename) (collection w)\<rparr>))"

definition collection_add_all :: "env \<Rightarrow> string \<Rightarrow> string list \<Rightarrow> nat io" where
  "collection_add_all e filename cs w =
     (case add_chunks e filename (zip [0..<length cs] cs) (collection w) of
        (added, col') \<Rightarrow> (Inr added, w\<lparr>collection := col'\<rparr>))"

definition process_pdf :: "env \<Rightarrow> string \<Rightarrow> processing io" where
  "process_pdf e file_path =
     try_except
       (bind (read_file file_path) (\<lambda>content.
        bind (lift (pdf_pages e content)) (\<lambda>pages.
        let filename = basename file_path;
            all_text = concat pages;
            chunk_size = 2000;
            cs = chunks chunk_size all_text;
            max_chunks = 5;
            cs = (if length cs > max_chunks then take max_chunks cs else cs)
        in
        bind (try_except (collection_delete e filename) (\<lambda>x. ret ())) (\<lambda>u.
        bind (collection_add_all e filename cs) (\<lambda>added_chunks.
        if added_chunks > 0 then ret (ProcSuccess added_chunks)
        else ret (ProcPartial (take 10000 all_text)))))))
       (\<lambda>x. ret ProcError)"

definition query_collection :: "env \<Rightarrow> string \<Rightarrow> nat \<Rightarrow> string list list io" where
  "query_collection e query_text n_results =
     try_except (\<lambda>w. (chroma_query e (collection w) query_text n_results, w))
       (\<lambda>x. ret [[]])"

definition generate_email_content ::
  "env \<Rightarrow> string list \<Rightarrow> string \<Rightarrow> string option \<Rightarrow> string io" where
  "generate_email_content e resume_chunks job_subject recipient_email =
     try_except (lift (summary_run e resume_chunks job_subject recipient_email))
       (\<lambda>x. ret default_template)"

section \<open>\<open>Main.py\<close>: the helpers\<close>

text \<open>\<open>twilio_client.messages.create\<close>: delivers the message or raises.\<close>

definition twilio_create :: "env \<Rightarrow> string \<Rightarrow> string \<Rightarrow> unit io" where
  "twilio_create e body to_number w =
     (if twilio_fails e to_number body then (Inl TwilioError, w)
      else (Inr (), w\<lparr>outbox := outbox w @ [(to_number, body)]\<rparr>))"

definition put_file :: "string \<Rightarrow> string \<Rightarrow> (string \<times> string) list \<Rightarrow> (string \<times> string) list" where
  "put_file path content fs = (path, content) # filter (\<lambda>(p, c). p \<noteq> path) fs"

text \<open>\<open>requests.get\<close> with \<open>raise_for_status\<close>: the body of the response, or an exception.\<close>

definition requests_get :: "env \<Rightarrow> string \<Rightarrow> string io" where
  "requests_get e url w = (http_get e url, w\<lparr>http_log := http_log w @ [url]\<rparr>)"

text \<open>
  \<open>with open(local_path, 'wb') as f: f.write(content)\<close>: once the file is open it exists,
  with whatever was written before a failure.
\<close>

definition open_write :: "env \<Rightarrow> string \<Rightarrow> string \<Rightarrow> unit io" where
  "open_write e local_path content w =
     (case disk_write e local_path content of
        Written \<Rightarrow> (Inr (), w\<lparr>files := put_file local_path content (files w)\<rparr>)
      | OpenFailed \<Rightarrow> (Inl OSError, w)
      | WriteFailed part \<Rightarrow> (Inl OSError, w\<lparr>files := put_file local_path part (files w)\<rparr>))"

definition download_file :: "env \<Rightarrow> string \<Rightarrow> string \<Rightarrow> bool io" where
  "download_file e url local_path =
     try_except
       (bind (requests_get e url) (\<lambda>content.
        bind (open_write e local_path content) (\<lambda>u. ret True)))
       (\<lambda>x. ret False)"

text \<open>\<open>os.unlink\<close>.\<close>

definition unlink :: "string \<Rightarrow> unit io" where
  "unlink path w =
     (case map_of (files w) path of None \<Rightarrow> (Inl OSError, w)
      | Some c \<Rightarrow> (Inr (), w\<lparr>files := filter (\<lambda>(p, c). p \<noteq> path) (files w)\<rparr>))"

text \<open>
  The mail agent is built for the receiver and run on the command (\<open>mail_command\<close>, with
  the attachment list when a path is given); the tool it may call reads the attachment from
  the path named in the command.
\<close>

definition mail_agent_run :: "env \<Rightarrow> string \<Rightarrow> string \<Rightarrow> string option \<Rightarrow> string io" where
  "mail_agent_run e receiver command attachment_path w =
     (let attached = (case attachment_path of None \<Rightarrow> None | Some p \<Rightarrow> map_of (files w) p) in
      (mail_run e receiver command attached,
       w\<lparr>mail_log := mail_log w @ [(receiver, command, attached)]\<rparr>))"

definition mail_command :: "string \<Rightarrow> string \<Rightarrow> string option \<Rightarrow> string" where
  "mail_command subject body with_path =
     (case with_path of
        Some p \<Rightarrow> ''send an email with a subject '' @ [CHR 0x27] @ subject @ [CHR 0x27]
                  @ '' and body '' @ [CHR 0x27] @ body @ [CHR 0x27]
                  @ '' with attachments ['' @ [CHR 0x27] @ p @ [CHR 0x27] @ '']''
      | None \<Rightarrow> ''send an email with a subject '' @ [CHR 0x27] @ subject @ [CHR 0x27]
                  @ '' and body '' @ [CHR 0x27] @ body @ [CHR 0x27])"

definition send_email :: "env \<Rightarrow> string \<Rightarrow> string \<Rightarrow> string \<Rightarrow> string option \<Rightarrow> bool io" where
  "send_email e recipient_email subject body attachment_path =
     try_except
       (let with_path = (case attachment_path of None \<Rightarrow> None
                         | Some p \<Rightarrow> if p = [] then None else Some p);
            command = mail_command subject body with_path
        in bind (mail_agent_run e recipient_email command with_path) (\<lambda>content.
           ret (contains content ''email sent successfully'')))
       (\<lambda>x. ret False)"

definition get_default_email_template :: "string \<Rightarrow> string" where
  "get_default_email_template subject = default_template"

definition generate_email_body ::
  "env \<Rightarrow> string \<Rightarrow> string option \<Rightarrow> string option \<Rightarrow> string io" where
  "generate_email_body e subject attachment_path recipient_email =
     try_except
       (case attachment_path of
          None \<Rightarrow> ret (get_default_email_template subject)
        | Some path \<Rightarrow>
            if path = [] then ret (get_default_email_template subject)
            else
              bind (process_pdf e path) (\<lambda>processing_result.
              case processing_result of
                ProcSuccess n \<Rightarrow>
                  bind (query_collection e (''job application for '' @ subject) 3) (\<lambda>documents.
                  case documents of
                    [] \<Rightarrow> ret (get_default_email_template subject)
                  | first # others \<Rightarrow>
                      if first = [] then ret (get_default_email_template subject)
                      else generate_email_content e first subject recipient_email)
              | ProcPartial text \<Rightarrow>
                  if text = [] then ret (get_default_email_template subject)
                  else generate_email_content e [text] subject recipient_email
              | ProcError \<Rightarrow> ret (get_default_email_template subject)))
       (\<lambda>x. ret (get_default_email_template subject))"

section \<open>\<open>Main.py\<close>: the webhook\<close>

text \<open>
  The form of a request, as the handler reads it: the fields it gets by name (absent is
  \<open>None\<close>), and the value of \<open>int(form_dict.get("NumMedia", "0"))\<close> or the error it raises.
\<close>

record form =
  From :: "string option"
  Body :: "string option"
  WaId :: "string option"
  NumMedia :: "exn + int"
  MediaContentType :: "nat \<Rightarrow> string option"
  MediaUrl :: "nat \<Rightarrow> string option"

definition form_get :: "string option \<Rightarrow> string \<Rightarrow> string" where
  "form_get field dflt = (case field of None \<Rightarrow> dflt | Some v \<Rightarrow> v)"

text \<open>The loop over \<open>range(num_media)\<close> that keeps the URLs of PDF attachments.\<close>

fun pdf_urls :: "form \<Rightarrow> nat list \<Rightarrow> string list" where
  "pdf_urls f [] = []"
| "pdf_urls f (i # rest) =
     (case MediaContentType f i of
        None \<Rightarrow> pdf_urls f rest
      | Some media_content_type \<Rightarrow>
          (case MediaUrl f i of
             None \<Rightarrow> pdf_urls f rest
           | Some media_url \<Rightarrow>
               if media_content_type \<noteq> [] \<and> media_url \<noteq> []
                  \<and> lower media_content_type = ''application/pdf''
               then media_url # pdf_urls f rest
               else pdf_urls f rest))"

type_synonym response = "string \<times> string"

definition twiml_ack :: response where
  "twiml_ack =
     (''<?xml version='' @ [CHR 0x27] @ ''1.0'' @ [CHR 0x27] @ '' encoding='' @ [CHR 0x27]
        @ ''UTF-8'' @ [CHR 0x27] @ ''?><Response></Response>'',
      ''application/xml'')"

definition not_member_message :: string where
  "not_member_message =
     ''You are not subscribed to our membership. Please contact zainxaidi2003@gmail.com for membership details.''"

definition setup_error_message :: string where
  "setup_error_message =
     ''Sorry, I encountered an error setting up your chat session. Please try again later.''"

definition confirmation_message :: "string \<Rightarrow> string" where
  "confirmation_message recipient_email =
     [CHR 0xE2, CHR 0x9C, CHR 0x85] @ '' Email sent successfully to '' @ recipient_email @ ''!''"

definition send_error_message :: string where
  "send_error_message =
     [CHR 0xE2, CHR 0x9D, CHR 0x8C]
       @ '' Sorry, I encountered an error sending the email. Please try again later.''"

definition download_error_message :: string where
  "download_error_message =
     [CHR 0xE2, CHR 0x9D, CHR 0x8C]
       @ '' Sorry, I encountered an error downloading your attachment. Please try again.''"

definition missing_attachment_message :: string where
  "missing_attachment_message =
     [CHR 0xF0, CHR 0x9F, CHR 0x93, CHR 0x8E]
       @ '' Please attach your resume/CV/transcript/experience letter to continue. I need this to send your job application.''"

definition keycap :: "string \<Rightarrow> string" where
  "keycap d = d @ [CHR 0xEF, CHR 0xB8, CHR 0x8F, CHR 0xE2, CHR 0x83, CHR 0xA3]"

definition missing_info_message :: string where
  "missing_info_message =
     [CHR 0xF0, CHR 0x9F, CHR 0x93, CHR 0x9D]
       @ '' I need a bit more information to send your email:'' @ [CHR 0x0A, CHR 0x0A]
       @ keycap ''1'' @ '' The recipient'' @ [CHR 0x27]
       @ ''s email address (e.g., recruiter@company.com)'' @ [CHR 0x0A]
       @ keycap ''2'' @ '' The email subject (e.g., '' @ [CHR 0x27]
       @ ''Application for Python Developer Position'' @ [CHR 0x27] @ '')'' @ [CHR 0x0A]
       @ keycap ''3'' @ '' Your resume/CV/transcript/experience letter as an attachment''
       @ [CHR 0x0A, CHR 0x0A] @ ''Please provide any missing information.''"

definition unknown_response_message :: string where
  "unknown_response_message =
     ''I'' @ [CHR 0x27] @ ''m having trouble understanding your request. Please provide:''
       @ [CHR 0x0A, CHR 0x0A]
       @ ''1. The recipient'' @ [CHR 0x27] @ ''s email address'' @ [CHR 0x0A]
       @ ''2. The email subject'' @ [CHR 0x0A]
       @ ''3. Your resume/CV/transcript/experience letter as an attachment''"

definition processing_error_message :: string where
  "processing_error_message =
     ''Sorry, I encountered an error processing your request. Please try again later.''"

definition no_wa_id_message :: string where
  "no_wa_id_message = ''Sorry, I couldn'' @ [CHR 0x27] @ ''t identify your phone number.''"

text \<open>
  The three statements every branch of an active chat ends with: build the INSERT with
  \<open>save_message\<close>, execute it, send the same text as the reply.
\<close>

definition save_and_reply ::
  "env \<Rightarrow> nat \<Rightarrow> nat \<Rightarrow> string \<Rightarrow> string \<Rightarrow> string \<Rightarrow> unit io" where
  "save_and_reply e chat_id user_id body from_number reply =
     bind (execute_query e (save_message chat_id user_id body reply)) (\<lambda>r.
     twilio_create e reply from_number)"

definition index :: "'a list \<Rightarrow> nat \<Rightarrow> 'a io" where
  "index xs i = (if i < length xs then ret (xs ! i) else raise IndexError)"

text \<open>The name of the temporary file, \<open>f"/tmp/resume_{timestamp}.pdf"\<close>.\<close>

definition temp_file_name :: "string \<Rightarrow> string" where
  "temp_file_name timestamp = ''/tmp/resume_'' @ timestamp @ ''.pdf''"

text \<open>The branch \<open>mediator_response.startswith("TRUE")\<close>.\<close>

definition ready_pipeline ::
  "env \<Rightarrow> string \<Rightarrow> string \<Rightarrow> nat \<Rightarrow> nat \<Rightarrow> string list \<Rightarrow> string \<Rightarrow> unit io" where
  "ready_pipeline e from_number body chat_id user_id media_urls mediator_response =
     (let parts = split CHR '','' mediator_response in
      bind (index parts 1) (\<lambda>part1.
      bind (index parts 2) (\<lambda>part2.
      let recipient_email = strip part1;
          subject = strip part2;
          timestamp = now e;
          temp_file = temp_file_name timestamp
      in
      bind (case media_urls of [] \<Rightarrow> ret False
            | first_url # others \<Rightarrow> download_file e first_url temp_file) (\<lambda>downloaded.
      if downloaded then
        bind (generate_email_body e subject (Some temp_file) (Some recipient_email)) (\<lambda>email_body.
        bind (send_email e recipient_email subject email_body (Some temp_file)) (\<lambda>email_sent.
        bind (try_except (unlink temp_file) (\<lambda>x. ret ())) (\<lambda>u.
        if email_sent = False then
          bind (end_chat e chat_id) (\<lambda>end_chat_query.
          bind (execute_query e end_chat_query) (\<lambda>r.
          save_and_reply e chat_id user_id body from_number
            (confirmation_message recipient_email)))
        else save_and_reply e chat_id user_id body from_number send_error_message)))
      else save_and_reply e chat_id user_id body from_number download_error_message))))"

text \<open>The branch of a user with an active chat.\<close>

definition active_chat_turn ::
  "env \<Rightarrow> string \<Rightarrow> string \<Rightarrow> string list \<Rightarrow> user_row \<Rightarrow> nat \<Rightarrow> unit io" where
  "active_chat_turn e from_number body media_urls user_data chat_id =
     (let user_id = u_id user_data in
      bind (get_chat_messages e chat_id) (\<lambda>chat_history_query.
      bind (execute_query e chat_history_query) (\<lambda>r.
      bind (message_rows r) (\<lambda>chat_history.
      bind (analyze_conversation e user_data chat_history body media_urls) (\<lambda>mediator_response.
      if startswith mediator_response ''TRUE'' then
        ready_pipeline e from_number body chat_id user_id media_urls mediator_response
      else if mediator_response = ''FALSE_1'' then
        save_and_reply e chat_id user_id body from_number missing_attachment_message
      else if mediator_response = ''FALSE_2'' then
        save_and_reply e chat_id user_id body from_number missing_info_message
      else save_and_reply e chat_id user_id body from_number unknown_response_message)))))"

text \<open>The branch of a user with no active chat.\<close>

definition new_chat_turn :: "env \<Rightarrow> string \<Rightarrow> string \<Rightarrow> user_row \<Rightarrow> unit io" where
  "new_chat_turn e from_number body user_data =
     (let user_id = u_id user_data in
      bind (create_new_chat e user_id) (\<lambda>new_chat_query.
      bind (execute_query e new_chat_query) (\<lambda>new_chat_result.
      case new_chat_result of
        LastRowId chat_id \<Rightarrow>
          bind (generate_intro_message e user_data body) (\<lambda>intro_message.
          bind (execute_query e (save_message chat_id user_id body intro_message)) (\<lambda>r.
          twilio_create e intro_message from_number))
      | Users us \<Rightarrow> twilio_create e setup_error_message from_number
      | Chats cs \<Rightarrow> twilio_create e setup_error_message from_number
      | Messages ms \<Rightarrow> twilio_create e setup_error_message from_number)))"

text \<open>
  The body of the inner \<open>try\<close>. It returns the response of the early \<open>return\<close> of the
  non-member branch, or \<open>None\<close> when control reaches the end of the block.
\<close>

definition process_message ::
  "env \<Rightarrow> string \<Rightarrow> string \<Rightarrow> string list \<Rightarrow> response option io" where
  "process_message e from_number body media_urls =
     (let clean_number = replace ''whatsapp:'' [] from_number in
      bind (generate_query e clean_number) (\<lambda>sql_query.
      bind (execute_query e sql_query) (\<lambda>r.
      bind (user_rows r) (\<lambda>user_result.
      case user_result of
        [] \<Rightarrow> bind (twilio_create e not_member_message from_number) (\<lambda>u. ret (Some twiml_ack))
      | user_data # others \<Rightarrow>
          if u_is_member user_data = 0 then
            bind (twilio_create e not_member_message from_number) (\<lambda>u. ret (Some twiml_ack))
          else
            bind (check_active_chat e (u_id user_data)) (\<lambda>active_chat_query.
            bind (execute_query e active_chat_query) (\<lambda>r.
            bind (chat_rows r) (\<lambda>active_chat_result.
            case active_chat_result of
              [] \<Rightarrow> bind (new_chat_turn e from_number body user_data) (\<lambda>u. ret None)
            | chat # older \<Rightarrow>
                bind (active_chat_turn e from_number body media_urls user_data (c_id chat))
                  (\<lambda>u. ret None))))))))"

text \<open>The body of the outer \<open>try\<close>.\<close>

definition handle_request :: "env \<Rightarrow> exn + form \<Rightarrow> response io" where
  "handle_request e inbound =
     bind (lift inbound) (\<lambda>form_dict.
     let from_number = form_get (From form_dict) [];
         body = form_get (Body form_dict) [];
         wa_id = form_get (WaId form_dict) []
     in
     bind (lift (NumMedia form_dict)) (\<lambda>num_media.
     let media_urls = pdf_urls form_dict [0..<nat num_media] in
     if wa_id \<noteq> [] then
       bind (try_except (process_message e from_number body media_urls)
               (\<lambda>x. bind (twilio_create e processing_error_message from_number)
                       (\<lambda>u. ret None)))
         (\<lambda>early. case early of Some resp \<Rightarrow> ret resp | None \<Rightarrow> ret twiml_ack)
     else
       bind (twilio_create e no_wa_id_message from_number) (\<lambda>u. ret twiml_ack)))"

text \<open>
  What the transport gets from the route: the response the handler returns, or an exception
  that no handler caught.
\<close>

datatype outcome = Returned response | Unhandled exn

definition whatsapp_webhook :: "env \<Rightarrow> exn + form \<Rightarrow> world \<Rightarrow> outcome \<times> world" where
  "whatsapp_webhook e inbound w =
     (case try_except (handle_request e inbound) (\<lambda>x. ret twiml_ack) w of
        (Inr resp, w') \<Rightarrow> (Returned resp, w')
      | (Inl x, w') \<Rightarrow> (Unhandled x, w'))"

text \<open>\<open>init_db\<close> on a fresh database file: the three seeded users, no chat, no message.\<close>

definition init_db :: world where
  "init_db =
     \<lparr>users =
        [\<lparr>u_id = 1, u_name = ''Zain Raza'', u_phone = ''+923065187343'', u_is_member = 1, u_is_deleted = 0\<rparr>,
         \<lparr>u_id = 2, u_name = ''John Doe'', u_phone = ''+12345678901'', u_is_member = 1, u_is_deleted = 0\<rparr>,
         \<lparr>u_id = 3, u_name = ''Jane Smith'', u_phone = ''+12345678902'', u_is_member = 0, u_is_deleted = 0\<rparr>],
      chats = [], messages = [], chat_seq = 0, message_seq = 0, files = [], collection = [],
      outbox = [], http_log = [], mail_log = []\<rparr>"

text \<open>A run of the server: one turn after the other, each with its own collaborators.\<close>

fun run :: "(env \<times> (exn + form)) list \<Rightarrow> world \<Rightarrow> world" where
  "run [] w = w"
| "run ((e, inbound) # rest) w = run rest (snd (whatsapp_webhook e inbound w))"

section \<open>Concrete turns\<close>

text \<open>
  A turn in which every collaborator works: the mediator reports a complete submission, the
  download and the write succeed, the mail agent reports that the mail went out.
\<close>

definition ex_env :: env where
  "ex_env =
     \<lparr>agent_fails = (\<lambda>q. False), db_fails = (\<lambda>q. False),
      twilio_fails = (\<lambda>to_number body. False),
      intro_run = (\<lambda>u m. Inr ''Welcome''),
      mediator_run = (\<lambda>u h m urls.
         Inr ''TRUE, recruiter@acme.com, Application for Backend Engineer, https://api.twilio.com/ME1''),
      summary_run = (\<lambda>cs s r. Inr ''Dear Hiring Manager, please see my resume.''),
      mail_run = (\<lambda>r c a. Inr ''email sent successfully''),
      http_get = (\<lambda>url. Inr ''%PDF-1.4 resume''),
      disk_write = (\<lambda>p c. Written),
      now = ''20240101_120000'',
      pdf_pages = (\<lambda>c. Inr [''Backend engineer, five years'']),
      chroma_delete_fails = (\<lambda>f. False),
      chroma_add_fails = (\<lambda>i. False),
      chroma_query = (\<lambda>col q n. Inr [map (\<lambda>(i, d, f). d) col])\<rparr>"

text \<open>The seeded database after John Doe's first turn: one active chat with one message.\<close>

definition ex_world :: world where
  "ex_world =
     init_db\<lparr>chats := [\<lparr>c_id = 1, c_user_id = 2, c_status = ''active''\<rparr>], chat_seq := 1,
       messages := [\<lparr>m_id = 1, m_chat_id = 1, m_user_id = 2, m_user_message = ''Hi'',
                     m_bot_reply = ''Welcome''\<rparr>],
       message_seq := 1\<rparr>"

definition john :: user_row where
  "john = \<lparr>u_id = 2, u_name = ''John Doe'', u_phone = ''+12345678901'', u_is_member = 1,
            u_is_deleted = 0\<rparr>"

text \<open>John Doe's message with recipient, subject and one PDF.\<close>

definition ex_form :: form where
  "ex_form =
     \<lparr>From = Some ''whatsapp:+12345678901'',
      Body = Some ''recruiter@acme.com Application for Backend Engineer'',
      WaId = Some ''12345678901'', NumMedia = Inr 1,
      MediaContentType = (\<lambda>i. if i = 0 then Some ''application/pdf'' else None),
      MediaUrl = (\<lambda>i. if i = 0 then Some ''https://api.twilio.com/ME1'' else None)\<rparr>"

section \<open>Weakest preconditions of statements\<close>

text \<open>
  \<open>wp m Q E w\<close>: run from \<open>w\<close>, the statement \<open>m\<close> ends normally in a value and a world that
  satisfy \<open>Q\<close>, or raises an exception in a world that satisfies \<open>E\<close>.
\<close>

definition wp :: "'a io \<Rightarrow> ('a \<Rightarrow> world \<Rightarrow> bool) \<Rightarrow> (exn \<Rightarrow> world \<Rightarrow> bool) \<Rightarrow> world \<Rightarrow> bool" where
  "wp m Q E w = (case m w of (Inl x, w') \<Rightarrow> E x w' | (Inr a, w') \<Rightarrow> Q a w')"

named_theorems wp_simps

text \<open>
  \<open>triple P m Q E\<close>: from a world that satisfies \<open>P\<close>, the statement ends normally in a
  world that satisfies \<open>Q\<close> or raises in a world that satisfies \<open>E\<close>. A statement is quiet
  for an observation of the world when it never changes it, and an assertion is framed by an
  observation when it depends on nothing else.
\<close>

definition triple :: "(world \<Rightarrow> bool) \<Rightarrow> 'a io \<Rightarrow> (world \<Rightarrow> bool) \<Rightarrow> (world \<Rightarrow> bool) \<Rightarrow> bool" where
  "triple P m Q E = (\<forall>w. P w \<longrightarrow> wp m (\<lambda>a. Q) (\<lambda>x. E) w)"

definition quiet :: "(world \<Rightarrow> 'o) \<Rightarrow> 'a io \<Rightarrow> bool" where
  "quiet obs m = (\<forall>w. obs (snd (m w)) = obs w)"

definition frame :: "(world \<Rightarrow> 'o) \<Rightarrow> (world \<Rightarrow> bool) \<Rightarrow> bool" where
  "frame obs I = (\<forall>w w'. obs w' = obs w \<longrightarrow> I w' = I w)"

text \<open>What the user and the store see of the world: the three tables and the replies sent.\<close>

definition seen ::
  "world \<Rightarrow> user_row list \<times> chat_row list \<times> message_row list \<times> (string \<times> string) list" where
  "seen w = (users w, chats w, messages w, outbox w)"

text \<open>The values of the two helpers that never raise, read off a run.\<close>

definition process_pdf_result :: "env \<Rightarrow> string \<Rightarrow> world \<Rightarrow> processing" where
  "process_pdf_result e file_path w =
     (case fst (process_pdf e file_path w) of Inr r \<Rightarrow> r | Inl x \<Rightarrow> ProcError)"

definition email_body :: "env \<Rightarrow> string \<Rightarrow> string option \<Rightarrow> string option \<Rightarrow> world \<Rightarrow> string" where
  "email_body e subject attachment_path recipient_email w =
     (case fst (generate_email_body e subject attachment_path recipient_email w) of
        Inr b \<Rightarrow> b | Inl x \<Rightarrow> [])"

section \<open>The invariant of the chats table\<close>

definition one_active :: "chat_row list \<Rightarrow> bool" where
  "one_active cs = (\<forall>user_id. length (filter (is_active_of user_id) cs) \<le> 1)"

definition one_active_chat_per_user :: "world \<Rightarrow> bool" where
  "one_active_chat_per_user w =
     (\<forall>user_id. length (filter (is_active_of user_id) (chats w)) \<le> 1)"

text \<open>
  Three turns of John Doe on the seeded database: the first creates a chat; in the second
  the mail agent does not report success; the third comes after that chat.
\<close>

definition ex_env_mail_fails :: env where
  "ex_env_mail_fails = ex_env\<lparr>mail_run := (\<lambda>r c a. Inr ''error: connection refused'')\<rparr>"

definition ex_turns :: "(env \<times> (exn + form)) list" where
  "ex_turns = [(ex_env, Inr ex_form), (ex_env_mail_fails, Inr ex_form), (ex_env, Inr ex_form)]"

text \<open>Variations of the turn: the write of the download fails after four bytes; the mediator
  finds the submission incomplete; the summary agent answers with the empty text.\<close>

definition ex_env_write_fails :: env where
  "ex_env_write_fails = ex_env\<lparr>disk_write := (\<lambda>p c. WriteFailed (take 4 c))\<rparr>"






section \<open>Users that are not members\<close>

text \<open>
  The test of the handler on the row list of the user lookup: no row for the phone number (or
  only deleted ones), or a first row whose \<open>is_member\<close> is 0.
\<close>

definition not_a_member :: "world \<Rightarrow> string \<Rightarrow> bool" where
  "not_a_member w phone =
     (case filter (\<lambda>u. u_phone u = phone \<and> u_is_deleted u = 0) (users w) of
        [] \<Rightarrow> True | user_data # others \<Rightarrow> u_is_member user_data = 0)"



section \<open>Counting replies and message rows\<close>

text \<open>
  Assertions on the replies sent and the message rows, relative to the lists \<open>ob\<close> and
  \<open>ms\<close> a turn started with.
\<close>

definition untouched :: "(string \<times> string) list \<Rightarrow> message_row list \<Rightarrow> world \<Rightarrow> bool" where
  "untouched ob ms w = (outbox w = ob \<and> messages w = ms)"

definition unsent :: "(string \<times> string) list \<Rightarrow> message_row list \<Rightarrow> world \<Rightarrow> bool" where
  "unsent ob ms w = (outbox w = ob \<and> length (messages w) \<le> Suc (length ms))"

definition at_most_one :: "(string \<times> string) list \<Rightarrow> message_row list \<Rightarrow> world \<Rightarrow> bool" where
  "at_most_one ob ms w =
     (length (outbox w) \<le> Suc (length ob) \<and> length (messages w) \<le> Suc (length ms))"

definition exactly_one :: "(string \<times> string) list \<Rightarrow> message_row list \<Rightarrow> world \<Rightarrow> bool" where
  "exactly_one ob ms w =
     (length (outbox w) = Suc (length ob) \<and> length (messages w) = Suc (length ms))"

definition member_untouched ::
  "string \<Rightarrow> (string \<times> string) list \<Rightarrow> message_row list \<Rightarrow> world \<Rightarrow> bool" where
  "member_untouched phone ob ms w =
     (outbox w = ob \<and> messages w = ms \<and> \<not> not_a_member w phone)"

text \<open>A turn in which the INSERT of the message row fails.\<close>

definition ex_env_save_fails :: env where
  "ex_env_save_fails =
     ex_env\<lparr>db_fails := (\<lambda>q. case q of InsertMessage c u m b \<Rightarrow> True | SelectUser p \<Rightarrow> False
                | SelectActiveChat u \<Rightarrow> False | InsertChat u \<Rightarrow> False
                | SelectMessages c \<Rightarrow> False | UpdateEndChat c \<Rightarrow> False)\<rparr>"

section \<open>What leaves the process in the send pipeline\<close>

text \<open>The two logs of the send pipeline, alone and with the files.\<close>

definition logs :: "world \<Rightarrow> string list \<times> (string \<times> string \<times> string option) list" where
  "logs w = (http_log w, mail_log w)"

text \<open>What \<open>download_file\<close> leaves at the local path when it returns \<open>True\<close>.\<close>

definition downloaded_content :: "env \<Rightarrow> string \<Rightarrow> string \<Rightarrow> string option" where
  "downloaded_content e url local_path =
     (case http_get e url of
        Inl x \<Rightarrow> None
      | Inr content \<Rightarrow>
          (case disk_write e local_path content of
             Written \<Rightarrow> Some content | OpenFailed \<Rightarrow> None | WriteFailed part \<Rightarrow> None))"

definition logs_and_files ::
  "world \<Rightarrow> string list \<times> (string \<times> string \<times> string option) list \<times> (string \<times> string) list" where
  "logs_and_files w = (http_log w, mail_log w, files w)"

text \<open>Two replies of the mediator that differ in the reported URL only.\<close>

definition ex_response :: string where
  "ex_response =
     ''TRUE, recruiter@acme.com, Application for Backend Engineer, https://api.twilio.com/ME1''"

definition ex_response_other_url :: string where
  "ex_response_other_url =
     ''TRUE, recruiter@acme.com, Application for Backend Engineer, https://example.org/other.pdf''"

text \<open>How one turn may change the chats table.\<close>

definition end_row :: "nat \<Rightarrow> chat_row \<Rightarrow> chat_row" where
  "end_row chat_id c = (if c_id c = chat_id then c\<lparr>c_status := ''ended''\<rparr> else c)"

definition chats_step :: "world \<Rightarrow> world \<Rightarrow> bool" where
  "chats_step w w' =
     (chats w' = chats w
      \<or> (\<exists>chat_id. chats w' = map (end_row chat_id) (chats w))
      \<or> (\<exists>i user_id. chats w' = chats w @ [\<lparr>c_id = i, c_user_id = user_id, c_status = ''active''\<rparr>]
            \<and> filter (is_active_of user_id) (chats w) = []))"

section \<open>Rules for statements\<close>

lemma wp_ret [wp_simps]: "wp (ret x) Q E = Q x"
  by (rule ext) (simp add: wp_def ret_def)

lemma wp_raise [wp_simps]: "wp (raise x) Q E = E x"
  by (rule ext) (simp add: wp_def raise_def)

lemma wp_lift [wp_simps]: "wp (lift r) Q E = (case r of Inl x \<Rightarrow> E x | Inr a \<Rightarrow> Q a)"
  by (rule ext) (simp add: wp_def lift_def split: sum.splits)

lemma wp_bind [wp_simps]: "wp (bind m f) Q E = wp m (\<lambda>a. wp (f a) Q E) E"
  by (rule ext) (simp add: wp_def bind_def split: prod.splits sum.splits)

lemma wp_try_except [wp_simps]: "wp (try_except m h) Q E = wp m Q (\<lambda>x. wp (h x) Q E)"
  by (rule ext) (simp add: wp_def try_except_def split: prod.splits sum.splits)

lemma wp_agent_query [wp_simps]:
  "wp (agent_query e q) Q E = (\<lambda>w. if agent_fails e q then E AgentError w else Q q w)"
  by (rule ext) (simp add: wp_def agent_query_def)

lemma wp_twilio_create [wp_simps]:
  "wp (twilio_create e body to_number) Q E =
     (\<lambda>w. if twilio_fails e to_number body then E TwilioError w
      else Q () (w\<lparr>outbox := outbox w @ [(to_number, body)]\<rparr>))"
  by (rule ext) (simp add: wp_def twilio_create_def)

lemma wp_user_rows [wp_simps]:
  "wp (user_rows r) Q E = (case r of Users us \<Rightarrow> Q us | _ \<Rightarrow> E KeyError)"
  by (simp add: user_rows_def wp_simps split: result.splits)

lemma wp_chat_rows [wp_simps]:
  "wp (chat_rows r) Q E = (case r of Chats cs \<Rightarrow> Q cs | _ \<Rightarrow> E KeyError)"
  by (simp add: chat_rows_def wp_simps split: result.splits)

lemma wp_message_rows [wp_simps]:
  "wp (message_rows r) Q E = (case r of Messages ms \<Rightarrow> Q ms | _ \<Rightarrow> E KeyError)"
  by (simp add: message_rows_def wp_simps split: result.splits)

lemma wp_index [wp_simps]:
  "wp (index xs i) Q E = (if i < length xs then Q (xs ! i) else E IndexError)"
  by (simp add: index_def wp_simps)

lemma wp_select_user [wp_simps]:
  "wp (execute_query e (SelectUser phone)) Q E =
     (\<lambda>w. if db_fails e (SelectUser phone) then E DatabaseError w
          else Q (Users (filter (\<lambda>u. u_phone u = phone \<and> u_is_deleted u = 0) (users w))) w)"
  by (rule ext) (simp add: wp_def execute_query_def)

lemma wp_select_active_chat [wp_simps]:
  "wp (execute_query e (SelectActiveChat user_id)) Q E =
     (\<lambda>w. if db_fails e (SelectActiveChat user_id) then E DatabaseError w
          else Q (Chats (take 1 (rev (filter (is_active_of user_id) (chats w))))) w)"
  by (rule ext) (simp add: wp_def execute_query_def)

lemma wp_insert_chat [wp_simps]:
  "wp (execute_query e (InsertChat user_id)) Q E =
     (\<lambda>w. if db_fails e (InsertChat user_id) then E DatabaseError w
          else Q (LastRowId (Suc (chat_seq w)))
                 (w\<lparr>chats := chats w @
                       [\<lparr>c_id = Suc (chat_seq w), c_user_id = user_id, c_status = ''active''\<rparr>],
                    chat_seq := Suc (chat_seq w)\<rparr>))"
  by (rule ext) (simp add: wp_def execute_query_def Let_def)

lemma wp_select_messages [wp_simps]:
  "wp (execute_query e (SelectMessages chat_id)) Q E =
     (\<lambda>w. if db_fails e (SelectMessages chat_id) then E DatabaseError w
          else Q (Messages (filter (\<lambda>m. m_chat_id m = chat_id) (messages w))) w)"
  by (rule ext) (simp add: wp_def execute_query_def)

lemma wp_update_end_chat [wp_simps]:
  "wp (execute_query e (UpdateEndChat chat_id)) Q E =
     (\<lambda>w. if db_fails e (UpdateEndChat chat_id) then E DatabaseError w
          else Q (LastRowId 0)
                 (w\<lparr>chats := map (\<lambda>c. if c_id c = chat_id then c\<lparr>c_status := ''ended''\<rparr> else c)
                                (chats w)\<rparr>))"
  by (rule ext) (simp add: wp_def execute_query_def)

lemma wp_insert_message [wp_simps]:
  "wp (execute_query e (InsertMessage chat_id user_id um br)) Q E =
     (\<lambda>w. if db_fails e (InsertMessage chat_id user_id um br) then E DatabaseError w
          else Q (LastRowId (Suc (message_seq w)))
                 (w\<lparr>messages := messages w @
                       [\<lparr>m_id = Suc (message_seq w), m_chat_id = chat_id, m_user_id = user_id,
                         m_user_message = um, m_bot_reply = br\<rparr>],
                    message_seq := Suc (message_seq w)\<rparr>))"
  by (rule ext) (simp add: wp_def execute_query_def Let_def)

lemma wp_analyze_conversation [wp_simps]:
  "wp (analyze_conversation e user_data chat_history user_message media_urls) Q E =
     (case mediator_run e user_data (formatted_history chat_history) user_message media_urls of
        Inl x \<Rightarrow> E x
      | Inr content \<Rightarrow>
          if startswith (strip content) ''TRUE'' \<and> media_urls = [] then Q ''FALSE_1''
          else Q (strip content))"
  by (simp add: analyze_conversation_def wp_simps Let_def split: sum.splits)

lemma wp_requests_get [wp_simps]:
  "wp (requests_get e url) Q E =
     (\<lambda>w. case http_get e url of Inl x \<Rightarrow> E x (w\<lparr>http_log := http_log w @ [url]\<rparr>)
          | Inr content \<Rightarrow> Q content (w\<lparr>http_log := http_log w @ [url]\<rparr>))"
  by (rule ext) (simp add: wp_def requests_get_def split: sum.splits)

lemma wp_open_write [wp_simps]:
  "wp (open_write e local_path content) Q E =
     (\<lambda>w. case disk_write e local_path content of
        Written \<Rightarrow> Q () (w\<lparr>files := put_file local_path content (files w)\<rparr>)
      | OpenFailed \<Rightarrow> E OSError w
      | WriteFailed part \<Rightarrow> E OSError (w\<lparr>files := put_file local_path part (files w)\<rparr>))"
  by (rule ext) (simp add: wp_def open_write_def split: write_outcome.splits)

lemma wp_unlink [wp_simps]:
  "wp (unlink path) Q E =
     (\<lambda>w. case map_of (files w) path of None \<Rightarrow> E OSError w
          | Some c \<Rightarrow> Q () (w\<lparr>files := filter (\<lambda>(p, c). p \<noteq> path) (files w)\<rparr>))"
  by (rule ext) (simp add: wp_def unlink_def split: option.splits)

lemma wp_mail_agent_run [wp_simps]:
  "wp (mail_agent_run e receiver command attachment_path) Q E =
     (\<lambda>w. let attached = (case attachment_path of None \<Rightarrow> None | Some p \<Rightarrow> map_of (files w) p);
              w' = w\<lparr>mail_log := mail_log w @ [(receiver, command, attached)]\<rparr>
          in case mail_run e receiver command attached of Inl x \<Rightarrow> E x w' | Inr c \<Rightarrow> Q c w')"
  by (rule ext) (simp add: wp_def mail_agent_run_def Let_def split: sum.splits)

lemma wp_if [wp_simps]:
  "wp (if b then m else n) Q E = (if b then wp m Q E else wp n Q E)"
  by simp

lemma wp_case_option [wp_simps]:
  "wp (case x of None \<Rightarrow> m | Some a \<Rightarrow> f a) Q E =
     (case x of None \<Rightarrow> wp m Q E | Some a \<Rightarrow> wp (f a) Q E)"
  by (simp split: option.splits)

lemma wp_case_list [wp_simps]:
  "wp (case xs of [] \<Rightarrow> m | a # as \<Rightarrow> f a as) Q E =
     (case xs of [] \<Rightarrow> wp m Q E | a # as \<Rightarrow> wp (f a as) Q E)"
  by (simp split: list.splits)

lemma wp_case_result [wp_simps]:
  "wp (case r of Users us \<Rightarrow> f1 us | Chats cs \<Rightarrow> f2 cs | Messages ms \<Rightarrow> f3 ms
        | LastRowId i \<Rightarrow> f4 i) Q E =
     (case r of Users us \<Rightarrow> wp (f1 us) Q E | Chats cs \<Rightarrow> wp (f2 cs) Q E
      | Messages ms \<Rightarrow> wp (f3 ms) Q E | LastRowId i \<Rightarrow> wp (f4 i) Q E)"
  by (simp split: result.splits)

lemma wp_case_processing [wp_simps]:
  "wp (case r of ProcSuccess n \<Rightarrow> f1 n | ProcPartial t \<Rightarrow> f2 t | ProcError \<Rightarrow> m) Q E =
     (case r of ProcSuccess n \<Rightarrow> wp (f1 n) Q E | ProcPartial t \<Rightarrow> wp (f2 t) Q E
      | ProcError \<Rightarrow> wp m Q E)"
  by (simp split: processing.splits)

lemma wpI:
  assumes "wp m (\<lambda>a w'. P (Inr a, w')) (\<lambda>x w'. P (Inl x, w')) w"
  shows "P (m w)"
proof (cases "m w")
  case (Pair r w')
  then show ?thesis using assms by (cases r) (simp_all add: wp_def)
qed

lemma whatsapp_webhook_wp:
  assumes "wp (handle_request e inbound) (\<lambda>r w'. P (Returned r, w'))
             (\<lambda>x w'. P (Returned twiml_ack, w')) w"
  shows "P (whatsapp_webhook e inbound w)"
proof (cases "handle_request e inbound w")
  case (Pair r w')
  then show ?thesis
    using assms by (cases r) (simp_all add: whatsapp_webhook_def wp_def try_except_def ret_def)
qed

lemma wp_True [simp]: "wp m (\<lambda>a w. True) (\<lambda>x w. True) w"
  by (simp add: wp_def split: prod.splits sum.splits)

lemma wp_mono:
  "wp m Q' E' w \<Longrightarrow> (\<And>a w'. Q' a w' \<Longrightarrow> Q a w') \<Longrightarrow> (\<And>x w'. E' x w' \<Longrightarrow> E x w')
   \<Longrightarrow> wp m Q E w"
  by (auto simp add: wp_def split: prod.splits sum.splits)

lemma wp_download_file [wp_simps]:
  "wp (download_file e url local_path) Q E =
     (\<lambda>w. case http_get e url of
        Inl x \<Rightarrow> Q False (w\<lparr>http_log := http_log w @ [url]\<rparr>)
      | Inr content \<Rightarrow>
          (case disk_write e local_path content of
             Written \<Rightarrow> Q True (w\<lparr>http_log := http_log w @ [url],
                                  files := put_file local_path content (files w)\<rparr>)
           | OpenFailed \<Rightarrow> Q False (w\<lparr>http_log := http_log w @ [url]\<rparr>)
           | WriteFailed part \<Rightarrow> Q False (w\<lparr>http_log := http_log w @ [url],
                                  files := put_file local_path part (files w)\<rparr>)))"
  by (rule ext) (simp add: download_file_def wp_simps split: sum.splits write_outcome.splits)

lemma wp_send_email:
  "wp (send_email e recipient_email subject body attachment_path) Q E =
     (\<lambda>w. let with_path = (case attachment_path of None \<Rightarrow> None
                           | Some p \<Rightarrow> if p = [] then None else Some p);
              command = mail_command subject body with_path;
              attached = (case with_path of None \<Rightarrow> None | Some p \<Rightarrow> map_of (files w) p);
              w' = w\<lparr>mail_log := mail_log w @ [(recipient_email, command, attached)]\<rparr>
          in case mail_run e recipient_email command attached of
               Inl x \<Rightarrow> Q False w'
             | Inr content \<Rightarrow> Q (contains content ''email sent successfully'') w')"
  by (rule ext) (simp add: send_email_def wp_simps Let_def mail_command_def split: sum.splits option.splits)

lemma wp_collection_delete [wp_simps]:
  "wp (collection_delete e filename) Q E =
     (\<lambda>w. if chroma_delete_fails e filename then E ChromaError w
          else Q () (w\<lparr>collection := filter (\<lambda>(i, d, f). f \<noteq> filename) (collection w)\<rparr>))"
  by (rule ext) (simp add: wp_def collection_delete_def)

lemma wp_collection_add_all [wp_simps]:
  "wp (collection_add_all e filename cs) Q E =
     (\<lambda>w. Q (fst (add_chunks e filename (zip [0..<length cs] cs) (collection w)))
            (w\<lparr>collection := snd (add_chunks e filename (zip [0..<length cs] cs) (collection w))\<rparr>))"
  by (rule ext) (simp add: wp_def collection_add_all_def split: prod.splits)

lemma wp_read_file [wp_simps]:
  "wp (read_file path) Q E =
     (\<lambda>w. case map_of (files w) path of None \<Rightarrow> E OSError w | Some content \<Rightarrow> Q content w)"
  by (rule ext) (simp add: wp_def read_file_def split: option.splits)

lemma wp_query_collection [wp_simps]:
  "wp (query_collection e query_text n_results) Q E =
     (\<lambda>w. case chroma_query e (collection w) query_text n_results of
        Inl x \<Rightarrow> Q [[]] w | Inr documents \<Rightarrow> Q documents w)"
  by (rule ext) (simp add: wp_def query_collection_def try_except_def ret_def split: sum.splits)

lemma wp_generate_email_content [wp_simps]:
  "wp (generate_email_content e resume_chunks job_subject recipient_email) Q E =
     (case summary_run e resume_chunks job_subject recipient_email of
        Inl x \<Rightarrow> Q default_template | Inr content \<Rightarrow> Q content)"
  by (simp add: generate_email_content_def wp_simps split: sum.splits)

lemma process_pdf_frame:
  "wp (process_pdf e file_path) (\<lambda>r w'. w' = w\<lparr>collection := collection w'\<rparr>) (\<lambda>x w'. False) w"
  by (simp add: process_pdf_def wp_simps Let_def split: option.splits sum.splits)


lemma wp_summary:
  assumes "wp m (\<lambda>a w'. w' = w\<lparr>collection := collection w'\<rparr>) (\<lambda>x w'. False) w"
  shows "wp m Q E w =
    Q (case fst (m w) of Inr a \<Rightarrow> a | Inl x \<Rightarrow> d) (w\<lparr>collection := collection (snd (m w))\<rparr>)"
proof (cases "m w")
  case (Pair r w')
  then show ?thesis using assms by (cases r) (simp_all add: wp_def)
qed

lemma wp_process_pdf:
  "wp (process_pdf e file_path) Q E =
     (\<lambda>w. Q (process_pdf_result e file_path w)
            (w\<lparr>collection := collection (snd (process_pdf e file_path w))\<rparr>))"
  by (rule ext) (simp add: wp_summary [OF process_pdf_frame] process_pdf_result_def)

lemma generate_email_body_frame:
  "wp (generate_email_body e subject attachment_path recipient_email)
      (\<lambda>b w'. w' = w\<lparr>collection := collection w'\<rparr>) (\<lambda>x w'. False) w"
  by (simp add: generate_email_body_def wp_process_pdf wp_simps Let_def
      split: option.splits sum.splits list.splits processing.splits)

lemma wp_generate_email_body:
  "wp (generate_email_body e subject attachment_path recipient_email) Q E =
     (\<lambda>w. Q (email_body e subject attachment_path recipient_email w)
            (w\<lparr>collection :=
                 collection (snd (generate_email_body e subject attachment_path recipient_email w))\<rparr>))"
  by (rule ext) (simp add: wp_summary [OF generate_email_body_frame] email_body_def)


lemma one_active_append:
  assumes "one_active cs" and "filter (is_active_of user_id) cs = []"
  shows "one_active (cs @ [\<lparr>c_id = i, c_user_id = user_id, c_status = ''active''\<rparr>])"
  unfolding one_active_def
proof
  fix u
  show "length (filter (is_active_of u)
          (cs @ [\<lparr>c_id = i, c_user_id = user_id, c_status = ''active''\<rparr>])) \<le> 1"
  proof (cases "u = user_id")
    case True
    then show ?thesis using assms(2) by (simp add: is_active_of_def)
  next
    case False
    then show ?thesis using assms(1) by (simp add: one_active_def is_active_of_def)
  qed
qed

lemma filter_ended_le:
  "length (filter (is_active_of u)
     (map (\<lambda>c. if c_id c = chat_id then c\<lparr>c_status := ''ended''\<rparr> else c) cs))
   \<le> length (filter (is_active_of u) cs)"
  by (induction cs) (auto simp add: is_active_of_def)

lemma one_active_end:
  assumes "one_active cs"
  shows "one_active (map (\<lambda>c. if c_id c = chat_id then c\<lparr>c_status := ''ended''\<rparr> else c) cs)"
  unfolding one_active_def
proof
  fix u
  have "length (filter (is_active_of u) cs) \<le> 1"
    using assms by (simp add: one_active_def)
  with filter_ended_le [of u chat_id cs]
  show "length (filter (is_active_of u)
     (map (\<lambda>c. if c_id c = chat_id then c\<lparr>c_status := ''ended''\<rparr> else c) cs)) \<le> 1"
    by linarith
qed

lemma take1_rev_empty: "take 1 (rev xs) = [] \<Longrightarrow> xs = []"
  by (cases "rev xs") auto


lemma tripleD: "triple P m Q E \<Longrightarrow> P w \<Longrightarrow> wp m (\<lambda>a. Q) (\<lambda>x. E) w"
  by (simp add: triple_def)

lemma triple_bind:
  assumes "triple P m R E" and "\<And>a. triple R (f a) Q E"
  shows "triple P (bind m f) Q E"
  unfolding triple_def
proof (intro allI impI)
  fix w assume "P w"
  then have "wp m (\<lambda>a. R) (\<lambda>x. E) w" using assms(1) by (simp add: triple_def)
  then show "wp (bind m f) (\<lambda>a. Q) (\<lambda>x. E) w"
    unfolding wp_bind
    by (rule wp_mono) (use assms(2) in \<open>auto simp add: triple_def\<close>)
qed

lemma triple_try_except:
  assumes "triple P m Q R" and "\<And>x. triple R (h x) Q E"
  shows "triple P (try_except m h) Q E"
  unfolding triple_def
proof (intro allI impI)
  fix w assume "P w"
  then have "wp m (\<lambda>a. Q) (\<lambda>x. R) w" using assms(1) by (simp add: triple_def)
  then show "wp (try_except m h) (\<lambda>a. Q) (\<lambda>x. E) w"
    unfolding wp_try_except
    by (rule wp_mono) (use assms(2) in \<open>auto simp add: triple_def\<close>)
qed

lemma triple_ret: "(\<And>w. P w \<Longrightarrow> Q w) \<Longrightarrow> triple P (ret a) Q E"
  by (simp add: triple_def wp_simps)

lemma triple_weaken:
  "triple P' m Q' E' \<Longrightarrow> (\<And>w. P w \<Longrightarrow> P' w) \<Longrightarrow> (\<And>w. Q' w \<Longrightarrow> Q w) \<Longrightarrow> (\<And>w. E' w \<Longrightarrow> E w)
   \<Longrightarrow> triple P m Q E"
  unfolding triple_def by (blast intro: wp_mono)

lemma triple_if:
  "(b \<Longrightarrow> triple P m Q E) \<Longrightarrow> (\<not> b \<Longrightarrow> triple P n Q E) \<Longrightarrow> triple P (if b then m else n) Q E"
  by simp

lemma triple_case_list:
  "(xs = [] \<Longrightarrow> triple P m Q E) \<Longrightarrow> (\<And>a as. xs = a # as \<Longrightarrow> triple P (f a as) Q E)
   \<Longrightarrow> triple P (case xs of [] \<Rightarrow> m | a # as \<Rightarrow> f a as) Q E"
  by (cases xs) simp_all

lemma triple_case_option:
  "(x = None \<Longrightarrow> triple P m Q E) \<Longrightarrow> (\<And>a. x = Some a \<Longrightarrow> triple P (f a) Q E)
   \<Longrightarrow> triple P (case x of None \<Rightarrow> m | Some a \<Rightarrow> f a) Q E"
  by (cases x) simp_all

lemma triple_case_result:
  "(\<And>us. triple P (f1 us) Q E) \<Longrightarrow> (\<And>cs. triple P (f2 cs) Q E) \<Longrightarrow> (\<And>ms. triple P (f3 ms) Q E)
   \<Longrightarrow> (\<And>i. triple P (f4 i) Q E)
   \<Longrightarrow> triple P (case r of Users us \<Rightarrow> f1 us | Chats cs \<Rightarrow> f2 cs | Messages ms \<Rightarrow> f3 ms
                  | LastRowId i \<Rightarrow> f4 i) Q E"
  by (cases r) simp_all

lemma triple_agent_bind:
  assumes "\<And>w. I w \<Longrightarrow> E w" and "triple I (f q) Q E"
  shows "triple I (bind (agent_query e q) f) Q E"
  using assms by (simp add: triple_def wp_simps)

lemmas flow_rules =
  triple_agent_bind triple_if triple_case_list triple_case_option triple_case_result

lemma quiet_triple:
  assumes "quiet obs m" and "frame obs I" and "\<And>w. I w \<Longrightarrow> E w"
  shows "triple I m I E"
  unfolding triple_def
proof (intro allI impI)
  fix w assume "I w"
  from assms(1) have "obs (snd (m w)) = obs w"
    by (simp add: quiet_def)
  with assms(2) \<open>I w\<close> have "I (snd (m w))"
    unfolding frame_def by blast
  then show "wp m (\<lambda>a. I) (\<lambda>x. E) w"
    using assms(3) by (cases "m w"; cases "fst (m w)") (auto simp add: wp_def)
qed

lemma quietI:
  assumes "\<And>w. wp m (\<lambda>a w'. obs w' = obs w) (\<lambda>x w'. obs w' = obs w) w"
  shows "quiet obs m"
  unfolding quiet_def
proof
  fix w
  show "obs (snd (m w)) = obs w"
  proof (cases "m w")
    case (Pair r w')
    then show ?thesis using assms [of w] by (cases r) (simp_all add: wp_def)
  qed
qed

lemma quiet_ret: "quiet obs (ret a)"
  by (rule quietI) (simp add: wp_simps)

lemma quiet_raise: "quiet obs (raise x)"
  by (rule quietI) (simp add: wp_simps)

lemma quiet_lift: "quiet obs (lift r)"
  by (rule quietI) (simp add: wp_simps split: sum.split)

lemma quiet_index: "quiet obs (index xs i)"
  by (rule quietI) (simp add: wp_simps)

lemma quiet_rows: "quiet obs (user_rows r)" "quiet obs (chat_rows r)" "quiet obs (message_rows r)"
  by (rule quietI, simp add: wp_simps split: result.split)+

lemma quiet_agent_query: "quiet obs (agent_query e q)"
  by (rule quietI) (simp add: wp_simps)

lemma quiet_select:
  "quiet obs (execute_query e (SelectUser phone))"
  "quiet obs (execute_query e (SelectActiveChat user_id))"
  "quiet obs (execute_query e (SelectMessages chat_id))"
  by (rule quietI, simp add: wp_simps)+

lemma quiet_analyze_conversation:
  "quiet obs (analyze_conversation e user_data chat_history user_message media_urls)"
  by (rule quietI) (simp add: wp_simps split: sum.split)

lemma quiet_download_file: "quiet seen (download_file e url local_path)"
  by (rule quietI) (simp add: wp_download_file seen_def split: sum.split write_outcome.split)

lemma quiet_send_email: "quiet seen (send_email e recipient_email subject body attachment_path)"
  by (rule quietI) (simp add: wp_send_email Let_def seen_def split: sum.split)

lemma quiet_generate_email_body:
  "quiet seen (generate_email_body e subject attachment_path recipient_email)"
  by (rule quietI) (simp add: wp_generate_email_body seen_def)

lemma quiet_unlink: "quiet seen (try_except (unlink path) (\<lambda>x. ret ()))"
  by (rule quietI) (simp add: wp_simps seen_def split: option.split)

lemmas seen_quiet =
  quiet_ret [of seen] quiet_raise [of seen] quiet_lift [of seen] quiet_index [of seen]
  quiet_rows [of seen] quiet_agent_query [of seen] quiet_select [of seen]
  quiet_analyze_conversation [of seen] quiet_download_file quiet_send_email
  quiet_generate_email_body quiet_unlink

lemmas stable = seen_quiet [THEN quiet_triple]

lemma ready_pipeline_triple:
  assumes fr: "frame seen I" and ie: "\<And>w. I w \<Longrightarrow> E w"
    and save: "\<And>reply. triple I (save_and_reply e chat_id user_id body from_number reply) Q E"
    and ended: "triple I (execute_query e (UpdateEndChat chat_id)) J E"
    and save_after: "\<And>reply. triple J (save_and_reply e chat_id user_id body from_number reply) Q E"
  shows "triple I (ready_pipeline e from_number body chat_id user_id media_urls mediator_response) Q E"
  unfolding ready_pipeline_def Let_def end_chat_def
  by (intro flow_rules
      triple_bind [where R = J and m = "execute_query e (UpdateEndChat c)" for c]
      triple_bind [where R = I] stable fr ie save ended save_after)

lemma active_chat_turn_triple:
  assumes fr: "frame seen I" and ie: "\<And>w. I w \<Longrightarrow> E w"
    and save: "\<And>reply. triple I (save_and_reply e chat_id (u_id user_data) body from_number reply) Q E"
    and ended: "triple I (execute_query e (UpdateEndChat chat_id)) J E"
    and save_after: "\<And>reply. triple J (save_and_reply e chat_id (u_id user_data) body from_number reply) Q E"
  shows "triple I (active_chat_turn e from_number body media_urls user_data chat_id) Q E"
  unfolding active_chat_turn_def Let_def get_chat_messages_def
  by (intro flow_rules triple_bind [where R = I] stable fr ie save
      ready_pipeline_triple [where J = J] ended save_after)

lemma insert_chat_triple:
  assumes created: "triple P (execute_query e (InsertChat user_id)) I E"
    and cont: "\<And>i. triple I (g i) Q E"
  shows "triple P (bind (execute_query e (InsertChat user_id))
            (\<lambda>r. case r of LastRowId i \<Rightarrow> g i | Users us \<Rightarrow> f1 us | Chats cs \<Rightarrow> f2 cs
                   | Messages ms \<Rightarrow> f3 ms)) Q E"
  using assms by (simp add: triple_def wp_simps)

lemma new_chat_turn_triple:
  assumes fr: "frame seen I" and pe: "\<And>w. P w \<Longrightarrow> E w" and ie: "\<And>w. I w \<Longrightarrow> E w"
    and created: "triple P (execute_query e (InsertChat (u_id user_data))) I E"
    and save: "\<And>chat_id reply.
        triple I (save_and_reply e chat_id (u_id user_data) body from_number reply) Q E"
  shows "triple P (new_chat_turn e from_number body user_data) Q E"
  unfolding new_chat_turn_def Let_def create_new_chat_def generate_intro_message_def
    save_and_reply_def [symmetric]
  by (intro insert_chat_triple [where I = I] flow_rules triple_bind [where R = I] stable
      fr ie pe save created)

lemma active_lookup_triple:
  assumes ie: "\<And>w. I w \<Longrightarrow> E w"
    and none: "triple (\<lambda>w. I w \<and> filter (is_active_of user_id) (chats w) = []) m Q E"
    and some: "\<And>c cs. triple I (g c cs) Q E"
  shows "triple I (bind (execute_query e (SelectActiveChat user_id))
                     (\<lambda>r. bind (chat_rows r) (\<lambda>found. case found of [] \<Rightarrow> m | c # cs \<Rightarrow> g c cs)))
           Q E"
  unfolding triple_def
proof (intro allI impI)
  fix w assume "I w"
  show "wp (bind (execute_query e (SelectActiveChat user_id))
              (\<lambda>r. bind (chat_rows r) (\<lambda>found. case found of [] \<Rightarrow> m | c # cs \<Rightarrow> g c cs)))
          (\<lambda>a. Q) (\<lambda>x. E) w"
  proof (cases "take 1 (rev (filter (is_active_of user_id) (chats w)))")
    case Nil
    then have "filter (is_active_of user_id) (chats w) = []"
      by (rule take1_rev_empty)
    with none \<open>I w\<close> Nil ie show ?thesis
      by (simp add: wp_simps triple_def)
  next
    case (Cons c cs)
    with some \<open>I w\<close> ie show ?thesis
      by (simp add: wp_simps triple_def)
  qed
qed

lemma user_lookup_triple:
  assumes ie: "\<And>w. I w \<Longrightarrow> E w"
    and non: "triple (\<lambda>w. I w \<and> not_a_member w phone) m Q E"
    and mem: "\<And>user_data others. triple (\<lambda>w. I w \<and> \<not> not_a_member w phone) (g user_data others) Q E"
  shows "triple I (bind (execute_query e (SelectUser phone))
            (\<lambda>r. bind (user_rows r)
               (\<lambda>found. case found of [] \<Rightarrow> m
                  | user_data # others \<Rightarrow>
                      if u_is_member user_data = 0 then m else g user_data others))) Q E"
  unfolding triple_def
proof (intro allI impI)
  fix w assume "I w"
  show "wp (bind (execute_query e (SelectUser phone))
            (\<lambda>r. bind (user_rows r)
               (\<lambda>found. case found of [] \<Rightarrow> m
                  | user_data # others \<Rightarrow>
                      if u_is_member user_data = 0 then m else g user_data others)))
          (\<lambda>a. Q) (\<lambda>x. E) w"
  proof (cases "not_a_member w phone")
    case True
    with non \<open>I w\<close> have "wp m (\<lambda>a. Q) (\<lambda>x. E) w"
      by (simp add: triple_def)
    with True ie \<open>I w\<close> show ?thesis
      by (simp add: wp_simps not_a_member_def split: list.splits)
  next
    case False
    with mem \<open>I w\<close> have "wp (g user_data others) (\<lambda>a. Q) (\<lambda>x. E) w" for user_data others
      by (simp add: triple_def)
    with False ie \<open>I w\<close> show ?thesis
      by (simp add: wp_simps not_a_member_def split: list.splits)
  qed
qed

lemma process_message_triple:
  assumes fr: "frame seen I" and ie: "\<And>w. I w \<Longrightarrow> E w"
    and rejected: "triple (\<lambda>w. I w \<and> not_a_member w (replace ''whatsapp:'' [] from_number))
                     (twilio_create e not_member_message from_number) Q E"
    and new: "\<And>user_data.
        triple (\<lambda>w. (I w \<and> \<not> not_a_member w (replace ''whatsapp:'' [] from_number))
                   \<and> filter (is_active_of (u_id user_data)) (chats w) = [])
          (new_chat_turn e from_number body user_data) Q E"
    and active: "\<And>user_data chat_id.
        triple (\<lambda>w. I w \<and> \<not> not_a_member w (replace ''whatsapp:'' [] from_number))
          (active_chat_turn e from_number body media_urls user_data chat_id) Q E"
  shows "triple I (process_message e from_number body media_urls) Q E"
  unfolding process_message_def Let_def generate_query_def check_active_chat_def
  by (intro user_lookup_triple active_lookup_triple flow_rules
      triple_bind [where R = Q and m = "twilio_create e t f" for t f]
      triple_bind [where R = Q and m = "new_chat_turn e f b u" for f b u]
      triple_bind [where R = Q and m = "active_chat_turn e f b m u c" for f b m u c]
      triple_ret ie rejected new active) (simp_all add: ie)

lemma handle_request_triple:
  assumes fr: "frame seen I" and ie: "\<And>w. I w \<Longrightarrow> E w" and ef: "\<And>w. E w \<Longrightarrow> F w"
    and pm: "\<And>from_number body media_urls. triple I (process_message e from_number body media_urls) Q E"
    and reply: "\<And>text from_number. triple I (twilio_create e text from_number) Q F"
    and apology: "\<And>text from_number. triple E (twilio_create e text from_number) Q F"
  shows "triple I (handle_request e inbound) Q F"
proof -
  have "I w \<Longrightarrow> F w" for w
    using ie ef by blast
  note if_rule = this
  have inner: "triple I (try_except (process_message e from_number body media_urls)
                 (\<lambda>x. bind (twilio_create e processing_error_message from_number)
                         (\<lambda>u. ret None))) Q F" for from_number body media_urls
    by (intro triple_try_except [where R = E] pm triple_bind [where R = Q] apology triple_ret)
  have tail: "triple Q (case early of Some resp \<Rightarrow> ret resp | None \<Rightarrow> ret twiml_ack) Q F"
    for early :: "response option"
    by (intro triple_case_option triple_ret)
  show ?thesis
    unfolding handle_request_def Let_def
    by (intro triple_bind [where R = I and m = "lift r" for r] triple_bind [where R = Q]
        stable fr if_rule triple_if inner tail reply triple_ret)
qed

lemma whatsapp_webhook_triple:
  assumes "triple I (handle_request e inbound) Q F" and "I w"
  shows "Q (snd (whatsapp_webhook e inbound w)) \<or> F (snd (whatsapp_webhook e inbound w))"
  by (rule whatsapp_webhook_wp) (use assms in \<open>auto simp add: triple_def intro: wp_mono\<close>)


lemma one_active_chats: "one_active_chat_per_user w = one_active (chats w)"
  by (simp add: one_active_chat_per_user_def one_active_def)

lemma frame_one_active: "frame seen one_active_chat_per_user"
  by (simp add: frame_def seen_def one_active_chats)

lemma one_active_save:
  "triple one_active_chat_per_user (save_and_reply e chat_id user_id body from_number reply)
     one_active_chat_per_user one_active_chat_per_user"
  by (simp add: triple_def save_and_reply_def save_message_def wp_simps one_active_chats)

lemma one_active_ended:
  "triple one_active_chat_per_user (execute_query e (UpdateEndChat chat_id))
     one_active_chat_per_user one_active_chat_per_user"
  by (simp add: triple_def wp_simps one_active_chats one_active_end)

lemma one_active_created:
  "triple (\<lambda>w. one_active_chat_per_user w \<and> filter (is_active_of user_id) (chats w) = [])
     (execute_query e (InsertChat user_id)) one_active_chat_per_user one_active_chat_per_user"
  by (simp add: triple_def wp_simps one_active_chats one_active_append)

lemma one_active_reply:
  "triple one_active_chat_per_user (twilio_create e text from_number)
     one_active_chat_per_user one_active_chat_per_user"
  by (simp add: triple_def wp_simps one_active_chats)

lemma one_active_handle_request:
  "triple one_active_chat_per_user (handle_request e inbound)
     one_active_chat_per_user one_active_chat_per_user"
proof -
  have new: "triple (\<lambda>w. (one_active_chat_per_user w \<and> M w)
                \<and> filter (is_active_of (u_id user_data)) (chats w) = [])
      (new_chat_turn e from_number body user_data)
      one_active_chat_per_user one_active_chat_per_user" for M from_number body user_data
    by (intro new_chat_turn_triple [where I = one_active_chat_per_user] frame_one_active
        one_active_save triple_weaken [OF one_active_created]) simp_all
  have active: "triple (\<lambda>w. one_active_chat_per_user w \<and> M w)
      (active_chat_turn e from_number body media_urls user_data chat_id)
      one_active_chat_per_user one_active_chat_per_user"
    for M from_number body media_urls user_data chat_id
  proof (rule triple_weaken)
    show "triple one_active_chat_per_user
        (active_chat_turn e from_number body media_urls user_data chat_id)
        one_active_chat_per_user one_active_chat_per_user"
      by (intro active_chat_turn_triple [where J = one_active_chat_per_user] frame_one_active
          one_active_save one_active_ended)
  qed simp_all
  have rejected: "triple (\<lambda>w. one_active_chat_per_user w
                \<and> not_a_member w (replace ''whatsapp:'' [] from_number))
      (twilio_create e not_member_message from_number)
      one_active_chat_per_user one_active_chat_per_user"
    for from_number
    by (rule triple_weaken [OF one_active_reply]) simp_all
  show ?thesis
    by (intro handle_request_triple [where E = one_active_chat_per_user]
        process_message_triple frame_one_active new active rejected one_active_reply) simp_all
qed

lemma one_active_webhook:
  assumes "one_active_chat_per_user w"
  shows "one_active_chat_per_user (snd (whatsapp_webhook e inbound w))"
  using whatsapp_webhook_triple [OF one_active_handle_request assms] by simp

lemma chats_step_handle_request:
  "triple (\<lambda>w. chats w = cs) (handle_request e inbound)
     (\<lambda>w'. chats w' = cs \<or> (\<exists>chat_id. chats w' = map (end_row chat_id) cs)
        \<or> (\<exists>i user_id. chats w' = cs @ [\<lparr>c_id = i, c_user_id = user_id, c_status = ''active''\<rparr>]
            \<and> filter (is_active_of user_id) cs = []))
     (\<lambda>w'. chats w' = cs \<or> (\<exists>chat_id. chats w' = map (end_row chat_id) cs)
        \<or> (\<exists>i user_id. chats w' = cs @ [\<lparr>c_id = i, c_user_id = user_id, c_status = ''active''\<rparr>]
            \<and> filter (is_active_of user_id) cs = []))"
    (is "triple ?I _ ?Q ?Q")
proof -
  have fr: "frame seen ?I"
    by (simp add: frame_def seen_def)
  have iq: "?I w \<Longrightarrow> ?Q w" for w
    by simp
  have keep: "triple P (save_and_reply e chat_id user_id body from_number reply) ?Q ?Q"
    if "\<And>w. P w \<Longrightarrow> ?Q w" for P chat_id user_id body from_number reply
    using that by (simp add: triple_def save_and_reply_def save_message_def wp_simps)
  have reply: "triple ?I (twilio_create e msg from_number) ?Q ?Q" for msg from_number
    by (simp add: triple_def wp_simps)
  have after_reply: "triple ?Q (twilio_create e msg from_number) ?Q ?Q" for msg from_number
    by (simp add: triple_def wp_simps)
  have ended: "triple ?I (execute_query e (UpdateEndChat chat_id))
      (\<lambda>w. chats w = map (end_row chat_id) cs) ?Q" for chat_id
    by (auto simp add: triple_def wp_simps end_row_def)
  have active: "triple (\<lambda>w. ?I w \<and> M w)
      (active_chat_turn e from_number body media_urls user_data chat_id) ?Q ?Q"
    for M from_number body media_urls user_data chat_id
  proof (rule triple_weaken)
    show "triple ?I (active_chat_turn e from_number body media_urls user_data chat_id) ?Q ?Q"
      by (intro active_chat_turn_triple [where J = "\<lambda>w. chats w = map (end_row chat_id) cs"]
          fr keep ended) auto
  qed simp_all
  have created: "triple (\<lambda>w. (?I w \<and> M w) \<and> filter (is_active_of user_id) (chats w) = [])
      (execute_query e (InsertChat user_id))
      (\<lambda>w. (\<exists>i. chats w = cs @ [\<lparr>c_id = i, c_user_id = user_id, c_status = ''active''\<rparr>])
            \<and> filter (is_active_of user_id) cs = []) ?Q" for M user_id
    by (auto simp add: triple_def wp_simps)
  have new: "triple (\<lambda>w. (?I w \<and> M w) \<and> filter (is_active_of (u_id user_data)) (chats w) = [])
      (new_chat_turn e from_number body user_data) ?Q ?Q" for M from_number body user_data
    by (intro new_chat_turn_triple [where I = "\<lambda>w. (\<exists>i. chats w = cs @
          [\<lparr>c_id = i, c_user_id = u_id user_data, c_status = ''active''\<rparr>])
            \<and> filter (is_active_of (u_id user_data)) cs = []"] keep created)
       (auto simp add: frame_def seen_def)
  have rejected: "triple (\<lambda>w. ?I w \<and> not_a_member w (replace ''whatsapp:'' [] from_number))
      (twilio_create e not_member_message from_number) ?Q ?Q" for from_number
    by (rule triple_weaken [OF reply]) simp_all
  show ?thesis
    by (intro handle_request_triple [where E = ?Q] process_message_triple fr
        new active rejected reply after_reply) simp_all
qed


lemma chats_step_webhook: "chats_step w (snd (whatsapp_webhook e inbound w))"
  using whatsapp_webhook_triple [OF chats_step_handle_request [of "chats w" e inbound], of w]
  by (auto simp add: chats_step_def)

section \<open>At most one active chat per user\<close>

text \<open>
  C3. At most one chat with status \<open>active\<close> exists per user at any time: started from a
  chats table with at most one active chat per user, every run of turns of the webhook ends
  with such a table, whatever the collaborators do. A single turn leaves the chats table as it
  is (appending a message does), or ends one chat, or adds one active chat for a user who had
  no active chat when the turn began.
\<close>

theorem one_active_chat_per_user_run:
  assumes "one_active_chat_per_user w"
  shows "one_active_chat_per_user (run turns w)
       \<and> chats_step w (snd (whatsapp_webhook e inbound w))"
proof
  from assms show "one_active_chat_per_user (run turns w)"
  proof (induction turns arbitrary: w)
    case Nil
    then show ?case by simp
  next
    case (Cons turn turns)
    obtain e inbound where turn: "turn = (e, inbound)"
      by (cases turn)
    from Cons.prems have "one_active_chat_per_user (snd (whatsapp_webhook e inbound w))"
      by (rule one_active_webhook)
    then have "one_active_chat_per_user (run turns (snd (whatsapp_webhook e inbound w)))"
      by (rule Cons.IH)
    then show ?case
      by (simp add: turn)
  qed
  show "chats_step w (snd (whatsapp_webhook e inbound w))"
    by (rule chats_step_webhook)
qed

lemma ex_turns_chats:
  "chats (run ex_turns init_db) =
     [\<lparr>c_id = 1, c_user_id = 2, c_status = ''ended''\<rparr>,
      \<lparr>c_id = 2, c_user_id = 2, c_status = ''active''\<rparr>]"
  by code_simp

lemma init_db_one_active: "one_active_chat_per_user init_db"
  by (simp add: one_active_chat_per_user_def init_db_def)

theorem one_active_chat_per_user_run_witness:
  "one_active_chat_per_user init_db
   \<and> chats (run ex_turns init_db) =
       [\<lparr>c_id = 1, c_user_id = 2, c_status = ''ended''\<rparr>,
        \<lparr>c_id = 2, c_user_id = 2, c_status = ''active''\<rparr>]
   \<and> one_active_chat_per_user (run ex_turns init_db)
   \<and> chats_step init_db (snd (whatsapp_webhook ex_env (Inr ex_form) init_db))"
  using one_active_chat_per_user_run [OF init_db_one_active, of ex_turns ex_env "Inr ex_form"]
    init_db_one_active ex_turns_chats
  by simp

section \<open>The mediator never reports a complete submission without an attachment\<close>

text \<open>
  C1. Whatever the user data, the history and the current message are, and whatever the
  language model replies: when the list of media URLs of the turn is empty, the decision
  that \<open>analyze_conversation\<close> returns does not start with TRUE, which is the test the
  webhook uses to enter the send pipeline.
\<close>

theorem analyze_conversation_never_ready_without_media:
  assumes "media_urls = []"
    and "analyze_conversation e user_data chat_history user_message media_urls w =
           (Inr decision, w')"
  shows "\<not> startswith decision ''TRUE''"
proof -
  have "wp (analyze_conversation e user_data chat_history user_message media_urls)
          (\<lambda>d w'. \<not> startswith d ''TRUE'') (\<lambda>x w'. True) w"
    using assms(1) by (simp add: wp_simps startswith_def split: sum.splits)
  then show ?thesis
    using assms(2) by (simp add: wp_def)
qed

lemma ex_analyze_without_media:
  "analyze_conversation ex_env john [] ''send it to recruiter@acme.com'' [] ex_world =
     (Inr ''FALSE_1'', ex_world)"
  by (simp add: analyze_conversation_def bind_def lift_def ret_def ex_env_def strip_def
      is_space_def startswith_def)

theorem analyze_conversation_never_ready_without_media_witness:
  "analyze_conversation ex_env john [] ''send it to recruiter@acme.com'' [] ex_world =
     (Inr ''FALSE_1'', ex_world) \<and> \<not> startswith ''FALSE_1'' ''TRUE''"
  using analyze_conversation_never_ready_without_media [OF refl ex_analyze_without_media]
    ex_analyze_without_media
  by simp

section \<open>Every call of the webhook returns the acknowledgment\<close>

lemma process_message_returns:
  "wp (process_message e from_number body media_urls)
      (\<lambda>r w'. r = None \<or> r = Some twiml_ack) (\<lambda>x w'. True) w"
  unfolding process_message_def Let_def generate_query_def check_active_chat_def
  by (auto simp add: wp_simps split: list.splits sum.splits result.splits)

text \<open>
  C8. For every request (also one whose form cannot be read or whose \<open>NumMedia\<close> is not a
  number), every state of the store and every behaviour of the collaborators (any of them
  may raise at any call), the route returns the empty TwiML response; no exception reaches
  the transport.
\<close>

theorem webhook_always_acknowledges:
  "fst (whatsapp_webhook e inbound w) = Returned twiml_ack"
proof (rule whatsapp_webhook_wp)
  have inner: "wp (process_message e from_number body media_urls)
      (\<lambda>a. wp (case a of None \<Rightarrow> ret twiml_ack | Some resp \<Rightarrow> ret resp)
             (\<lambda>r w'. r = twiml_ack) (\<lambda>x w'. True))
      (\<lambda>x w. True) w"
    for from_number body media_urls w
    by (rule wp_mono [OF process_message_returns]) (auto simp add: wp_simps)
  show "wp (handle_request e inbound)
          (\<lambda>r w'. fst (Returned r, w') = Returned twiml_ack)
          (\<lambda>x w'. fst (Returned twiml_ack, w') = Returned twiml_ack) w"
    by (simp add: handle_request_def Let_def wp_bind wp_lift wp_try_except wp_twilio_create
        wp_ret wp_if inner split: sum.splits)
qed

section \<open>The outcome of the send decides the wrong branch\<close>

text \<open>
  C2. The claim: when the send succeeds the chat ends and a confirmation is persisted; when
  a stage fails the chat stays active and an error reply is persisted. The code tests
  \<open>email_sent == False\<close> for the success branch. In the turn below the mail agent reports
  \<open>email sent successfully\<close>: the chat stays active and the persisted reply is the send
  error. With a mail agent that reports a failure, the chat is ended and the confirmation is
  persisted.
\<close>

theorem send_success_is_answered_as_failure:
  "chats (snd (whatsapp_webhook ex_env (Inr ex_form) ex_world)) =
     [\<lparr>c_id = 1, c_user_id = 2, c_status = ''active''\<rparr>]
   \<and> map m_bot_reply (messages (snd (whatsapp_webhook ex_env (Inr ex_form) ex_world))) =
       [''Welcome'', send_error_message]
   \<and> chats (snd (whatsapp_webhook ex_env_mail_fails (Inr ex_form) ex_world)) =
       [\<lparr>c_id = 1, c_user_id = 2, c_status = ''ended''\<rparr>]
   \<and> map m_bot_reply (messages (snd (whatsapp_webhook ex_env_mail_fails (Inr ex_form) ex_world))) =
       [''Welcome'', confirmation_message ''recruiter@acme.com'']"
  by code_simp

section \<open>A download that fails while writing leaves its file\<close>

text \<open>
  C5. The claim: the temporary file is removed on every exit path, also when the fetch fails
  after writing part of the file. \<open>os.unlink\<close> stands only in the branch of a successful
  download. In the turn below the write fails after four bytes: the turn ends with the
  download error persisted and the partial file still in place.
\<close>

theorem failed_write_leaves_temp_file:
  "files ex_world = []
   \<and> files (snd (whatsapp_webhook ex_env_write_fails (Inr ex_form) ex_world)) =
       [(''/tmp/resume_20240101_120000.pdf'', ''%PDF'')]
   \<and> map m_bot_reply (messages (snd (whatsapp_webhook ex_env_write_fails (Inr ex_form) ex_world))) =
       [''Welcome'', download_error_message]"
  by code_simp

section \<open>The decision is a function of the language model's reply\<close>





section \<open>\<open>generate_email_body\<close> never raises\<close>















section \<open>A turn of a user who is not a member\<close>








section \<open>One reply and one message row per turn\<close>

lemma frame_untouched: "frame seen (untouched ob ms)"
  by (simp add: frame_def seen_def untouched_def)

lemma frame_member_untouched: "frame seen (member_untouched phone ob ms)"
  by (simp add: frame_def seen_def member_untouched_def not_a_member_def)

lemma at_most_one_handle_request:
  "triple (untouched ob ms) (handle_request e inbound) (at_most_one ob ms) (unsent ob ms)"
proof -
  let ?I = "untouched ob ms" and ?E = "unsent ob ms" and ?Q = "at_most_one ob ms"
  have ie: "?I w \<Longrightarrow> ?E w" for w
    by (simp add: untouched_def unsent_def)
  have save: "triple ?I (save_and_reply e chat_id user_id body from_number reply) ?Q ?E"
    for chat_id user_id body from_number reply
    by (simp add: triple_def save_and_reply_def save_message_def wp_simps untouched_def
        unsent_def at_most_one_def)
  have ended: "triple ?I (execute_query e (UpdateEndChat chat_id)) ?I ?E" for chat_id
    by (simp add: triple_def wp_simps untouched_def unsent_def)
  have created: "triple (\<lambda>w. (?I w \<and> M w) \<and> N w) (execute_query e (InsertChat user_id)) ?I ?E"
    for M N user_id
    by (simp add: triple_def wp_simps untouched_def unsent_def)
  have reply: "triple ?I (twilio_create e msg from_number) ?Q ?E" for msg from_number
    by (simp add: triple_def wp_simps untouched_def unsent_def at_most_one_def)
  have apology: "triple ?E (twilio_create e msg from_number) ?Q ?E" for msg from_number
    by (simp add: triple_def wp_simps unsent_def at_most_one_def)
  have new: "triple (\<lambda>w. (?I w \<and> M w) \<and> N w) (new_chat_turn e from_number body user_data) ?Q ?E"
    for M N from_number body user_data
    by (intro new_chat_turn_triple [where I = ?I] frame_untouched save created)
       (simp_all add: ie)
  have active: "triple (\<lambda>w. ?I w \<and> M w)
      (active_chat_turn e from_number body media_urls user_data chat_id) ?Q ?E"
    for M from_number body media_urls user_data chat_id
  proof (rule triple_weaken)
    show "triple ?I (active_chat_turn e from_number body media_urls user_data chat_id) ?Q ?E"
      by (intro active_chat_turn_triple [where J = ?I] frame_untouched save ended)
         (simp add: ie)
  qed simp_all
  have rejected: "triple (\<lambda>w. ?I w \<and> not_a_member w (replace ''whatsapp:'' [] from_number))
      (twilio_create e not_member_message from_number) ?Q ?E" for from_number
    by (rule triple_weaken [OF reply]) simp_all
  show ?thesis
    by (intro handle_request_triple [where E = ?E] process_message_triple frame_untouched
        new active rejected reply apology) (simp_all add: ie)
qed

lemma exactly_one_process_message:
  "triple (member_untouched (replace ''whatsapp:'' [] from_number) ob ms)
     (process_message e from_number body media_urls) (exactly_one ob ms) (\<lambda>w. True)"
proof -
  let ?I = "member_untouched (replace ''whatsapp:'' [] from_number) ob ms"
  let ?Q = "exactly_one ob ms"
  have save: "triple ?I (save_and_reply e chat_id user_id body from_number reply) ?Q (\<lambda>w. True)"
    for chat_id user_id reply
    by (simp add: triple_def save_and_reply_def save_message_def wp_simps member_untouched_def
        exactly_one_def not_a_member_def)
  have ended: "triple ?I (execute_query e (UpdateEndChat chat_id)) ?I (\<lambda>w. True)" for chat_id
    by (simp add: triple_def wp_simps member_untouched_def not_a_member_def)
  have created: "triple (\<lambda>w. (?I w \<and> M w) \<and> N w) (execute_query e (InsertChat user_id)) ?I
      (\<lambda>w. True)" for M N user_id
    by (simp add: triple_def wp_simps member_untouched_def not_a_member_def)
  have new: "triple (\<lambda>w. (?I w \<and> M w) \<and> N w) (new_chat_turn e from_number body user_data) ?Q
      (\<lambda>w. True)" for M N user_data
    by (intro new_chat_turn_triple [where I = ?I] frame_member_untouched save created) simp_all
  have active: "triple (\<lambda>w. ?I w \<and> M w)
      (active_chat_turn e from_number body media_urls user_data chat_id) ?Q (\<lambda>w. True)"
    for M user_data chat_id
  proof (rule triple_weaken)
    show "triple ?I (active_chat_turn e from_number body media_urls user_data chat_id) ?Q
        (\<lambda>w. True)"
      by (intro active_chat_turn_triple [where J = ?I] frame_member_untouched save ended) simp
  qed simp_all
  have rejected: "triple (\<lambda>w. ?I w \<and> not_a_member w (replace ''whatsapp:'' [] from_number))
      (twilio_create e not_member_message from_number) ?Q (\<lambda>w. True)"
    by (simp add: triple_def member_untouched_def)
  show ?thesis
    by (intro process_message_triple frame_member_untouched new active rejected) simp_all
qed


lemma webhook_processed:
  assumes "form_get (WaId f) [] \<noteq> []" and "NumMedia f = Inr n"
    and "fst (process_message e (form_get (From f) []) (form_get (Body f) [])
               (pdf_urls f [0..<nat n]) w) = Inr r"
  shows "snd (whatsapp_webhook e (Inr f) w) =
         snd (process_message e (form_get (From f) []) (form_get (Body f) [])
               (pdf_urls f [0..<nat n]) w)"
proof (cases "process_message e (form_get (From f) []) (form_get (Body f) [])
               (pdf_urls f [0..<nat n]) w")
  case (Pair res w')
  with assms show ?thesis
    by (simp add: whatsapp_webhook_def handle_request_def bind_def try_except_def lift_def
        ret_def Let_def split: option.split)
qed

text \<open>
  C4, as the claim states it, fails: a known member whose message row cannot be inserted
  gets a reply (the generic error text) and no message row is persisted.
\<close>

theorem member_reply_without_row:
  "\<not> not_a_member ex_world (replace ''whatsapp:'' [] ''whatsapp:+12345678901'')
   \<and> outbox ex_world = []
   \<and> outbox (snd (whatsapp_webhook ex_env_save_fails (Inr ex_form) ex_world)) =
       [(''whatsapp:+12345678901'', processing_error_message)]
   \<and> messages (snd (whatsapp_webhook ex_env_save_fails (Inr ex_form) ex_world)) =
       messages ex_world"
  by code_simp

text \<open>
  C4, amended. In every turn at most one reply is sent and at most one message row is
  persisted. When the message comes from a known member, carries a \<open>WaId\<close> and a numeric
  \<open>NumMedia\<close>, and its processing raises no exception, exactly one reply is sent and exactly
  one message row is persisted. A reply without a message row is sent on the non-member
  path, for a request without \<open>WaId\<close>, and when the processing raised (the generic error
  reply).
\<close>

theorem one_reply_one_row:
  "length (outbox (snd (whatsapp_webhook e inbound w))) \<le> Suc (length (outbox w))
   \<and> length (messages (snd (whatsapp_webhook e inbound w))) \<le> Suc (length (messages w))
   \<and> (\<forall>f n r. inbound = Inr f \<and> form_get (WaId f) [] \<noteq> [] \<and> NumMedia f = Inr n
          \<and> \<not> not_a_member w (replace ''whatsapp:'' [] (form_get (From f) []))
          \<and> fst (process_message e (form_get (From f) []) (form_get (Body f) [])
                    (pdf_urls f [0..<nat n]) w) = Inr r
        \<longrightarrow> length (outbox (snd (whatsapp_webhook e inbound w))) = Suc (length (outbox w))
            \<and> length (messages (snd (whatsapp_webhook e inbound w))) = Suc (length (messages w)))"
proof (intro conjI allI impI)
  have "at_most_one (outbox w) (messages w) (snd (whatsapp_webhook e inbound w))
        \<or> unsent (outbox w) (messages w) (snd (whatsapp_webhook e inbound w))"
    by (rule whatsapp_webhook_triple [OF at_most_one_handle_request])
       (simp add: untouched_def)
  then show "length (outbox (snd (whatsapp_webhook e inbound w))) \<le> Suc (length (outbox w))"
    and "length (messages (snd (whatsapp_webhook e inbound w))) \<le> Suc (length (messages w))"
    by (auto simp add: at_most_one_def unsent_def)
next
  fix f n r
  assume a: "inbound = Inr f \<and> form_get (WaId f) [] \<noteq> [] \<and> NumMedia f = Inr n
          \<and> \<not> not_a_member w (replace ''whatsapp:'' [] (form_get (From f) []))
          \<and> fst (process_message e (form_get (From f) []) (form_get (Body f) [])
                    (pdf_urls f [0..<nat n]) w) = Inr r"
  let ?pm = "process_message e (form_get (From f) []) (form_get (Body f) [])
                    (pdf_urls f [0..<nat n])"
  from a have same: "snd (whatsapp_webhook e inbound w) = snd (?pm w)"
    by (simp add: webhook_processed)
  have "wp ?pm (\<lambda>a. exactly_one (outbox w) (messages w)) (\<lambda>x w'. True) w"
    by (rule tripleD [OF exactly_one_process_message]) (use a in \<open>simp add: member_untouched_def\<close>)
  with a have "exactly_one (outbox w) (messages w) (snd (?pm w))"
    by (cases "?pm w") (simp add: wp_def)
  with same
  show "length (outbox (snd (whatsapp_webhook e inbound w))) = Suc (length (outbox w))"
    and "length (messages (snd (whatsapp_webhook e inbound w))) = Suc (length (messages w))"
    by (simp_all add: exactly_one_def)
qed

lemma ex_member_processed:
  "\<not> not_a_member ex_world (replace ''whatsapp:'' [] (form_get (From ex_form) []))
   \<and> fst (process_message ex_env (form_get (From ex_form) []) (form_get (Body ex_form) [])
            (pdf_urls ex_form [0..<nat 1]) ex_world) = Inr None"
  by code_simp

theorem one_reply_one_row_witness:
  "\<not> not_a_member ex_world (replace ''whatsapp:'' [] (form_get (From ex_form) []))
   \<and> fst (process_message ex_env (form_get (From ex_form) []) (form_get (Body ex_form) [])
            (pdf_urls ex_form [0..<nat 1]) ex_world) = Inr None
   \<and> length (outbox (snd (whatsapp_webhook ex_env (Inr ex_form) ex_world))) =
       Suc (length (outbox ex_world))
   \<and> length (messages (snd (whatsapp_webhook ex_env (Inr ex_form) ex_world))) =
       Suc (length (messages ex_world))"
proof -
  have "form_get (WaId ex_form) [] \<noteq> [] \<and> NumMedia ex_form = Inr 1"
    by (simp add: ex_form_def form_get_def)
  with one_reply_one_row [of ex_env "Inr ex_form" ex_world] ex_member_processed
  show ?thesis
    by blast
qed

section \<open>The send pipeline downloads and attaches the first PDF of the turn\<close>

lemma bind_ret: "bind (ret a) f = f a"
  by (rule ext) (simp add: bind_def ret_def)

lemma ready_pipeline_fields:
  assumes "split CHR '','' mediator_response = p0 # p1 # p2 # reported"
    and "split CHR '','' response' = q0 # p1 # p2 # reported'"
  shows "ready_pipeline e from_number body chat_id user_id (first_url # others') response' =
         ready_pipeline e from_number body chat_id user_id (first_url # others) mediator_response"
  unfolding ready_pipeline_def Let_def by (simp add: assms index_def bind_ret)

lemma quiet_logs_rest:
  "quiet logs (try_except (unlink path) (\<lambda>x. ret ()))"
  "quiet logs (execute_query e q)"
  "quiet logs (twilio_create e msg from_number)"
  "quiet logs (generate_email_body e subject attachment_path recipient_email)"
proof -
  show "quiet logs (try_except (unlink path) (\<lambda>x. ret ()))"
    by (rule quietI) (simp add: wp_simps logs_def split: option.split)
  show "quiet logs (execute_query e q)"
    by (rule quietI, cases q) (simp_all add: wp_simps logs_def)
  show "quiet logs (twilio_create e msg from_number)"
    by (rule quietI) (simp add: wp_simps logs_def)
  show "quiet logs (generate_email_body e subject attachment_path recipient_email)"
    by (rule quietI) (simp add: wp_generate_email_body logs_def)
qed

lemmas logs_quiet =
  quiet_ret [of logs] quiet_raise [of logs] quiet_lift [of logs] quiet_index [of logs]
  quiet_agent_query [of logs] quiet_logs_rest

lemmas logs_stable = logs_quiet [THEN quiet_triple]

lemma save_and_reply_logs:
  assumes "frame logs I"
  shows "triple I (save_and_reply e chat_id user_id body from_number reply) I I"
  unfolding save_and_reply_def
  by (intro triple_bind [where R = I] logs_stable assms)

lemma after_send_logs:
  assumes fr: "frame logs I"
  shows "triple I
     (bind (try_except (unlink temp_file) (\<lambda>x. ret ()))
        (\<lambda>u. if email_sent = False then
            bind (end_chat e chat_id) (\<lambda>end_chat_query.
            bind (execute_query e end_chat_query) (\<lambda>r.
            save_and_reply e chat_id user_id body from_number
              (confirmation_message recipient_email)))
          else save_and_reply e chat_id user_id body from_number send_error_message)) I I"
  unfolding end_chat_def
  by (intro flow_rules triple_bind [where R = I] logs_stable save_and_reply_logs fr)


lemma download_step:
  assumes none: "downloaded_content e url local_path = None \<Longrightarrow>
      triple (\<lambda>w. http_log w = hl @ [url] \<and> mail_log w = ml) (k False) Q E"
    and some: "\<And>content. downloaded_content e url local_path = Some content \<Longrightarrow>
      triple (\<lambda>w. http_log w = hl @ [url] \<and> mail_log w = ml
                 \<and> map_of (files w) local_path = Some content) (k True) Q E"
  shows "triple (\<lambda>w. http_log w = hl \<and> mail_log w = ml)
           (bind (download_file e url local_path) k) Q E"
  using assms
  by (auto simp add: triple_def wp_bind wp_download_file downloaded_content_def put_file_def
      split: sum.split write_outcome.split)

lemma body_step:
  assumes "frame logs_and_files I" and "\<And>text_body. triple I (k text_body) Q E"
  shows "triple I (bind (generate_email_body e subject attachment_path recipient_email) k) Q E"
  unfolding triple_def
proof (intro allI impI)
  fix w assume "I w"
  let ?w = "w\<lparr>collection :=
      collection (snd (generate_email_body e subject attachment_path recipient_email w))\<rparr>"
  have "logs_and_files ?w = logs_and_files w"
    by (simp add: logs_and_files_def)
  with assms(1) \<open>I w\<close> have "I ?w"
    unfolding frame_def by blast
  with assms(2) show "wp (bind (generate_email_body e subject attachment_path recipient_email) k)
      (\<lambda>a. Q) (\<lambda>x. E) w"
    by (simp add: wp_bind wp_generate_email_body triple_def)
qed

lemma send_step:
  assumes "local_path \<noteq> []"
    and "\<And>email_sent. triple (\<lambda>w. http_log w = hl \<and> mail_log w = ml @
        [(recipient_email, mail_command subject text_body (Some local_path), Some content)])
        (k email_sent) Q E"
  shows "triple (\<lambda>w. http_log w = hl \<and> mail_log w = ml
                  \<and> map_of (files w) local_path = Some content)
           (bind (send_email e recipient_email subject text_body (Some local_path)) k) Q E"
  using assms
  by (auto simp add: triple_def wp_bind wp_send_email Let_def split: sum.split)

lemma ready_pipeline_logs:
  assumes parts: "split CHR '','' mediator_response = p0 # p1 # p2 # reported"
  shows "triple (\<lambda>w. http_log w = hl \<and> mail_log w = ml)
     (ready_pipeline e from_number body chat_id user_id (first_url # others) mediator_response)
     (\<lambda>w. http_log w = hl @ [first_url]
        \<and> (case downloaded_content e first_url (temp_file_name (now e)) of
             None \<Rightarrow> mail_log w = ml
           | Some content \<Rightarrow>
               (\<exists>text_body. mail_log w = ml @
                  [(strip p1, mail_command (strip p2) text_body (Some (temp_file_name (now e))),
                    Some content)])))
     (\<lambda>w. http_log w = hl @ [first_url]
        \<and> (case downloaded_content e first_url (temp_file_name (now e)) of
             None \<Rightarrow> mail_log w = ml
           | Some content \<Rightarrow>
               (\<exists>text_body. mail_log w = ml @
                  [(strip p1, mail_command (strip p2) text_body (Some (temp_file_name (now e))),
                    Some content)])))"
    (is "triple ?P _ ?Q ?Q")
proof -
  let ?T = "temp_file_name (now e)"
  have name: "?T \<noteq> []"
    by (simp add: temp_file_name_def)
  have failed: "triple (\<lambda>w. http_log w = hl @ [first_url] \<and> mail_log w = ml)
      (save_and_reply e chat_id user_id body from_number download_error_message) ?Q ?Q"
    if "downloaded_content e first_url ?T = None"
    by (rule triple_weaken [OF save_and_reply_logs])
       (simp_all add: frame_def logs_def that)
  have sent: "triple (\<lambda>w. http_log w = hl @ [first_url] \<and> mail_log w = ml @
        [(strip p1, mail_command (strip p2) text_body (Some ?T), Some content)])
      (bind (try_except (unlink ?T) (\<lambda>x. ret ()))
        (\<lambda>u. if email_sent = False then
            bind (end_chat e chat_id) (\<lambda>end_chat_query.
            bind (execute_query e end_chat_query) (\<lambda>r.
            save_and_reply e chat_id user_id body from_number
              (confirmation_message (strip p1))))
          else save_and_reply e chat_id user_id body from_number send_error_message)) ?Q ?Q"
    if "downloaded_content e first_url ?T = Some content" for text_body email_sent content
    by (rule triple_weaken [OF after_send_logs])
       (auto simp add: frame_def logs_def that)
  have fetched: "triple (\<lambda>w. http_log w = hl @ [first_url] \<and> mail_log w = ml
                 \<and> map_of (files w) ?T = Some content)
      (bind (generate_email_body e (strip p2) (Some ?T) (Some (strip p1))) (\<lambda>text_body.
        bind (send_email e (strip p1) (strip p2) text_body (Some ?T)) (\<lambda>email_sent.
        bind (try_except (unlink ?T) (\<lambda>x. ret ()))
        (\<lambda>u. if email_sent = False then
            bind (end_chat e chat_id) (\<lambda>end_chat_query.
            bind (execute_query e end_chat_query) (\<lambda>r.
            save_and_reply e chat_id user_id body from_number
              (confirmation_message (strip p1))))
          else save_and_reply e chat_id user_id body from_number send_error_message)))) ?Q ?Q"
    if "downloaded_content e first_url ?T = Some content" for content
    apply (rule body_step)
     apply (simp add: frame_def logs_and_files_def)
    apply (rule send_step [OF name])
    apply (rule sent [OF that])
    done
  show ?thesis
    unfolding ready_pipeline_def Let_def
    apply (simp add: parts index_def bind_ret)
    apply (rule download_step)
     apply (unfold if_False if_True)
     apply (erule failed)
    apply (erule fetched)
    done
qed


lemma wp_snd:
  assumes "wp m (\<lambda>a. Q) (\<lambda>x. Q) w"
  shows "Q (snd (m w))"
proof (cases "m w")
  case (Pair r w')
  then show ?thesis using assms by (cases r) (simp_all add: wp_def)
qed

text \<open>
  C9. In the branch of a TRUE reply with its three fields (more than the first two commas
  are never looked at): the one URL requested is the first of the turn's PDF URLs; when the
  download succeeds, the mail agent is given one command, for the recipient of the second
  field, with the temporary file as attachment, and that file holds the content fetched from
  the first URL; when it fails, no command is given. The run is the same for every other
  list of further URLs and every other reply with the same second and third field, so the
  URL the mediator reports and the further PDFs play no part.
\<close>

theorem ready_pipeline_uses_first_pdf:
  assumes "split CHR '','' mediator_response = p0 # p1 # p2 # reported"
  shows "http_log (snd (ready_pipeline e from_number body chat_id user_id (first_url # others)
                          mediator_response w)) = http_log w @ [first_url]
    \<and> (case downloaded_content e first_url (temp_file_name (now e)) of
         None \<Rightarrow>
           mail_log (snd (ready_pipeline e from_number body chat_id user_id (first_url # others)
                            mediator_response w)) = mail_log w
       | Some content \<Rightarrow>
           (\<exists>text_body.
              mail_log (snd (ready_pipeline e from_number body chat_id user_id
                               (first_url # others) mediator_response w)) =
              mail_log w @
                [(strip p1, mail_command (strip p2) text_body (Some (temp_file_name (now e))),
                  Some content)]))
    \<and> (\<forall>others' response' q0 reported'.
          split CHR '','' response' = q0 # p1 # p2 # reported' \<longrightarrow>
          ready_pipeline e from_number body chat_id user_id (first_url # others') response' w =
          ready_pipeline e from_number body chat_id user_id (first_url # others)
            mediator_response w)"
proof -
  let ?run = "ready_pipeline e from_number body chat_id user_id (first_url # others)
                mediator_response"
  have logs: "http_log (snd (?run w)) = http_log w @ [first_url]
        \<and> (case downloaded_content e first_url (temp_file_name (now e)) of
             None \<Rightarrow> mail_log (snd (?run w)) = mail_log w
           | Some content \<Rightarrow>
               (\<exists>text_body. mail_log (snd (?run w)) = mail_log w @
                  [(strip p1, mail_command (strip p2) text_body (Some (temp_file_name (now e))),
                    Some content)]))"
    by (rule wp_snd [OF tripleD [OF ready_pipeline_logs [OF assms]]]) simp
  have "ready_pipeline e from_number body chat_id user_id (first_url # others') response' w =
        ?run w"
    if "split CHR '','' response' = q0 # p1 # p2 # reported'" for others' response' q0 reported'
    by (rule fun_cong [OF ready_pipeline_fields [OF assms that]])
  with logs show ?thesis
    by blast
qed


lemma ex_response_parts:
  "split CHR '','' ex_response =
     ''TRUE'' # '' recruiter@acme.com'' # '' Application for Backend Engineer''
       # ['' https://api.twilio.com/ME1'']"
  "split CHR '','' ex_response_other_url =
     ''TRUE'' # '' recruiter@acme.com'' # '' Application for Backend Engineer''
       # ['' https://example.org/other.pdf'']"
  by (simp_all add: ex_response_def ex_response_other_url_def)

lemma ex_downloaded:
  "downloaded_content ex_env ''https://api.twilio.com/ME1'' local_path =
     Some ''%PDF-1.4 resume''"
  by (simp add: downloaded_content_def ex_env_def)

lemma ex_strips:
  "strip '' recruiter@acme.com'' = ''recruiter@acme.com''"
  "strip '' Application for Backend Engineer'' = ''Application for Backend Engineer''"
  "temp_file_name (now ex_env) = ''/tmp/resume_20240101_120000.pdf''"
  by (simp_all add: strip_def is_space_def temp_file_name_def ex_env_def)


theorem ready_pipeline_uses_first_pdf_witness:
  "split CHR '','' ex_response =
     ''TRUE'' # '' recruiter@acme.com'' # '' Application for Backend Engineer''
       # ['' https://api.twilio.com/ME1'']
   \<and> http_log (snd (ready_pipeline ex_env ''whatsapp:+12345678901'' ''hi'' 1 2
         (''https://api.twilio.com/ME1'' # [''https://api.twilio.com/ME2'']) ex_response ex_world)) =
       http_log ex_world @ [''https://api.twilio.com/ME1'']
   \<and> (\<exists>text_body. mail_log (snd (ready_pipeline ex_env ''whatsapp:+12345678901'' ''hi'' 1 2
         (''https://api.twilio.com/ME1'' # [''https://api.twilio.com/ME2'']) ex_response ex_world)) =
       mail_log ex_world @
         [(''recruiter@acme.com'',
           mail_command ''Application for Backend Engineer'' text_body
             (Some ''/tmp/resume_20240101_120000.pdf''),
           Some ''%PDF-1.4 resume'')])
   \<and> ready_pipeline ex_env ''whatsapp:+12345678901'' ''hi'' 1 2 [''https://api.twilio.com/ME1'']
         ex_response_other_url ex_world =
       ready_pipeline ex_env ''whatsapp:+12345678901'' ''hi'' 1 2
         (''https://api.twilio.com/ME1'' # [''https://api.twilio.com/ME2'']) ex_response ex_world"
proof -
  note inst = ready_pipeline_uses_first_pdf [OF ex_response_parts(1), of ex_env
      "''whatsapp:+12345678901''" "''hi''" 1 2 "''https://api.twilio.com/ME1''"
      "[''https://api.twilio.com/ME2'']" ex_world]
  have first: "http_log (snd (ready_pipeline ex_env ''whatsapp:+12345678901'' ''hi'' 1 2
         (''https://api.twilio.com/ME1'' # [''https://api.twilio.com/ME2'']) ex_response ex_world)) =
       http_log ex_world @ [''https://api.twilio.com/ME1'']"
    by (rule conjunct1 [OF inst])
  have second: "\<exists>text_body. mail_log (snd (ready_pipeline ex_env ''whatsapp:+12345678901'' ''hi'' 1 2
         (''https://api.twilio.com/ME1'' # [''https://api.twilio.com/ME2'']) ex_response ex_world)) =
       mail_log ex_world @
         [(''recruiter@acme.com'',
           mail_command ''Application for Backend Engineer'' text_body
             (Some ''/tmp/resume_20240101_120000.pdf''),
           Some ''%PDF-1.4 resume'')]"
    using conjunct1 [OF conjunct2 [OF inst]]
    by (simp only: ex_downloaded ex_strips option.case)
  have third: "ready_pipeline ex_env ''whatsapp:+12345678901'' ''hi'' 1 2
         [''https://api.twilio.com/ME1''] ex_response_other_url ex_world =
       ready_pipeline ex_env ''whatsapp:+12345678901'' ''hi'' 1 2
         (''https://api.twilio.com/ME1'' # [''https://api.twilio.com/ME2'']) ex_response ex_world"
    using conjunct2 [OF conjunct2 [OF inst]] ex_response_parts(2)
    by blast
  from ex_response_parts(1) first second third show ?thesis
    by (intro conjI)
qed

end
